theory Spec2Isabelle
  imports Complex_Main "HOL-Library.Finite_Map" "HOL-Library.Char_ord" "HOL-Library.List_Lexorder"
begin

section \<open>Bytes and number formatting\<close>

text \<open>
  Go strings and byte slices are byte sequences: both are modelled as \<open>string\<close>
  (a list of 8-bit characters). Go's \<open>int\<close> and \<open>int64\<close> are modelled as \<open>int\<close>:
  object numbers and byte offsets stay far below \<open>2^63\<close>, so no operation of the
  writer wraps around.
\<close>

type_synonym bytes = string

text \<open>A Go \<open>error\<close> is its message; \<open>nil\<close> is \<open>None\<close>.\<close>

type_synonym error = string

definition digit :: "nat \<Rightarrow> char" where
  "digit n = char_of (48 + n)"

function decimal :: "nat \<Rightarrow> string" where
  "decimal n = (if n < 10 then [digit n] else decimal (n div 10) @ [digit (n mod 10)])"
  by pat_completeness auto
termination
  by (relation "measure (\<lambda>n. n)") auto

declare decimal.simps [simp del]

text \<open>\<open>fmt.Sprintf("%d", i)\<close>.\<close>

definition fmt_d :: "int \<Rightarrow> string" where
  "fmt_d i = (if i < 0 then ''-'' @ decimal (nat (- i)) else decimal (nat i))"

text \<open>\<open>fmt.Sprintf("%0wd", i)\<close>: zero padding to width \<open>w\<close>, after the sign.\<close>

definition fmt_0d :: "nat \<Rightarrow> int \<Rightarrow> string" where
  "fmt_0d w i =
     (if i < 0
      then ''-'' @ replicate (w - 1 - length (decimal (nat (- i)))) (CHR ''0'') @ decimal (nat (- i))
      else replicate (w - length (decimal (nat i))) (CHR ''0'') @ decimal (nat i))"

section \<open>Resource dictionary (resources.go)\<close>

text \<open>A Go map is a finite map. \<open>len(m)\<close> is the number of keys.\<close>

definition len :: "('k, 'v) fmap \<Rightarrow> int" where
  "len m = int (fcard (fmdom m))"

text \<open>
  The \<open>float64\<close> that keys \<open>extgstateCache\<close>: a finite value, as the real number it
  denotes (so that \<open>+0\<close> and \<open>-0\<close> are one value, as they are for \<open>==\<close>), an infinity,
  or NaN. Go compares map keys with \<open>==\<close>, and NaN is not \<open>==\<close> to anything, itself
  included.
\<close>

datatype float64 = Finite real | PosInf | NegInf | NaN

definition float64_eq :: "float64 \<Rightarrow> float64 \<Rightarrow> bool" where
  "float64_eq a b \<longleftrightarrow> a \<noteq> NaN \<and> b \<noteq> NaN \<and> a = b"

text \<open>
  A Go map keyed by \<open>float64\<close> is the list of its entries: \<open>m[k]\<close> finds the entry whose
  key is \<open>==\<close> to \<open>k\<close>, and \<open>m[k] = v\<close> overwrites that entry or, when there is none, adds
  one. A NaN key is therefore never found, and every store under NaN adds an entry.
\<close>

type_synonym float64_map = "(float64 \<times> string) list"

fun float64_map_lookup :: "float64_map \<Rightarrow> float64 \<Rightarrow> string option" where
  "float64_map_lookup [] k = None"
| "float64_map_lookup ((k', v') # m) k =
     (if float64_eq k' k then Some v' else float64_map_lookup m k)"

fun float64_map_store :: "float64_map \<Rightarrow> float64 \<Rightarrow> string \<Rightarrow> float64_map" where
  "float64_map_store [] k v = [(k, v)]"
| "float64_map_store ((k', v') # m) k v =
     (if float64_eq k' k then (k', v) # m else (k', v') # float64_map_store m k v)"

record ResourceDictionary =
  fonts :: "(string, int) fmap"
  fontIDs :: "(string, string) fmap"
  xobjects :: "(string, int) fmap"
  extgstates :: "(string, int) fmap"
  extgstateCache :: float64_map
  extgstateObjMap :: "(string, int) fmap"

definition NewResourceDictionary :: ResourceDictionary where
  "NewResourceDictionary =
     \<lparr>fonts = fmempty, fontIDs = fmempty, xobjects = fmempty, extgstates = fmempty,
      extgstateCache = [], extgstateObjMap = fmempty\<rparr>"

definition AddFont :: "ResourceDictionary \<Rightarrow> int \<Rightarrow> string \<times> ResourceDictionary" where
  "AddFont rd objNum =
     (let name = ''F'' @ fmt_d (len (fonts rd) + 1)
      in (name, rd\<lparr>fonts := fmupd name objNum (fonts rd)\<rparr>))"

definition AddFontWithID :: "ResourceDictionary \<Rightarrow> int \<Rightarrow> string \<Rightarrow> string \<times> ResourceDictionary" where
  "AddFontWithID rd objNum fontID =
     (case fmlookup (fontIDs rd) fontID of
        Some existingName \<Rightarrow> (existingName, rd)
      | None \<Rightarrow>
          (let name = ''F'' @ fmt_d (len (fonts rd) + 1)
           in (name, rd\<lparr>fonts := fmupd name objNum (fonts rd),
                         fontIDs := fmupd fontID name (fontIDs rd)\<rparr>)))"

definition SetFontObjNumByID :: "ResourceDictionary \<Rightarrow> string \<Rightarrow> int \<Rightarrow> bool \<times> ResourceDictionary" where
  "SetFontObjNumByID rd fontID objNum =
     (case fmlookup (fontIDs rd) fontID of
        None \<Rightarrow> (False, rd)
      | Some resName \<Rightarrow> (True, rd\<lparr>fonts := fmupd resName objNum (fonts rd)\<rparr>))"

definition GetFontResourceName :: "ResourceDictionary \<Rightarrow> string \<Rightarrow> string" where
  "GetFontResourceName rd fontID =
     (case fmlookup (fontIDs rd) fontID of None \<Rightarrow> [] | Some n \<Rightarrow> n)"

definition AddImage :: "ResourceDictionary \<Rightarrow> int \<Rightarrow> string \<times> ResourceDictionary" where
  "AddImage rd objNum =
     (let name = ''Im'' @ fmt_d (len (xobjects rd) + 1)
      in (name, rd\<lparr>xobjects := fmupd name objNum (xobjects rd)\<rparr>))"

definition AddExtGState :: "ResourceDictionary \<Rightarrow> int \<Rightarrow> string \<times> ResourceDictionary" where
  "AddExtGState rd objNum =
     (let name = ''GS'' @ fmt_d (len (extgstates rd) + 1)
      in (name, rd\<lparr>extgstates := fmupd name objNum (extgstates rd)\<rparr>))"

text \<open>Returns the name, \<open>needsCreation\<close> and the updated dictionary.\<close>

definition GetOrCreateExtGState ::
  "ResourceDictionary \<Rightarrow> float64 \<Rightarrow> string \<times> bool \<times> ResourceDictionary" where
  "GetOrCreateExtGState rd opacity =
     (case float64_map_lookup (extgstateCache rd) opacity of
        Some name \<Rightarrow> (name, False, rd)
      | None \<Rightarrow>
          (let name = ''GS'' @ fmt_d (len (extgstates rd) + 1)
           in (name, True,
               rd\<lparr>extgstateCache := float64_map_store (extgstateCache rd) opacity name,
                  extgstates := fmupd name 0 (extgstates rd),
                  extgstateObjMap := fmupd name 0 (extgstateObjMap rd)\<rparr>)))"

definition SetExtGStateObjNum :: "ResourceDictionary \<Rightarrow> string \<Rightarrow> int \<Rightarrow> bool \<times> ResourceDictionary" where
  "SetExtGStateObjNum rd name objNum =
     (case fmlookup (extgstates rd) name of
        None \<Rightarrow> (False, rd)
      | Some _ \<Rightarrow>
          (True, rd\<lparr>extgstates := fmupd name objNum (extgstates rd),
                     extgstateObjMap := fmupd name objNum (extgstateObjMap rd)\<rparr>))"

definition GetExtGStateObjNum :: "ResourceDictionary \<Rightarrow> string \<Rightarrow> int" where
  "GetExtGStateObjNum rd name = (case fmlookup (extgstates rd) name of None \<Rightarrow> 0 | Some n \<Rightarrow> n)"

definition HasResources :: "ResourceDictionary \<Rightarrow> bool" where
  "HasResources rd \<longleftrightarrow> len (fonts rd) > 0 \<or> len (xobjects rd) > 0 \<or> len (extgstates rd) > 0"

text \<open>
  What the methods keep true of the font tables, from \<open>NewResourceDictionary\<close> on: the
  names in use are \<open>F1\<close> to \<open>Fn\<close>, and every font ID is bound to a name in use.
\<close>

definition font_name :: "nat \<Rightarrow> string" where
  "font_name i = ''F'' @ fmt_d (int i)"

definition font_names :: "nat \<Rightarrow> string fset" where
  "font_names n = font_name |`| fset_of_list [1..<Suc n]"

definition registry_ok :: "ResourceDictionary \<Rightarrow> bool" where
  "registry_ok rd \<longleftrightarrow>
     fmdom (fonts rd) = font_names (nat (len (fonts rd)))
     \<and> fmpred (\<lambda>fontID name. name |\<in>| fmdom (fonts rd)) (fontIDs rd)"

text \<open>
  \<open>for name := range resources\<close> yields every key of the map once, in an order that Go
  leaves unspecified. The order is the parameter \<open>range_keys\<close>; \<open>range_ok\<close> says what
  Go guarantees about it.
\<close>

type_synonym range_order = "(string, int) fmap \<Rightarrow> string list"

definition range_ok :: "range_order \<Rightarrow> bool" where
  "range_ok range_keys \<longleftrightarrow>
     (\<forall>m. distinct (range_keys m) \<and> set (range_keys m) = fset (fmdom m))"

text \<open>\<open>fmt.Fprintf(buf, " /%s %d 0 R", name, objNum)\<close>; a missing key reads as 0.\<close>

definition resource_entry :: "(string, int) fmap \<Rightarrow> string \<Rightarrow> bytes" where
  "resource_entry resources name =
     '' /'' @ name @ '' '' @ fmt_d (case fmlookup resources name of None \<Rightarrow> 0 | Some n \<Rightarrow> n)
       @ '' 0 R''"

definition writeSortedResources :: "range_order \<Rightarrow> bytes \<Rightarrow> (string, int) fmap \<Rightarrow> bytes" where
  "writeSortedResources range_keys buf resources =
     (let names = sort (range_keys resources)
      in foldl (\<lambda>b name. b @ resource_entry resources name) buf names)"

definition Bytes :: "range_order \<Rightarrow> ResourceDictionary \<Rightarrow> bytes" where
  "Bytes range_keys rd =
     (let buf = ''<<'';
          buf = (if len (fonts rd) > 0
                 then writeSortedResources range_keys (buf @ '' /Font <<'') (fonts rd) @ '' >>''
                 else buf);
          buf = (if len (xobjects rd) > 0
                 then writeSortedResources range_keys (buf @ '' /XObject <<'') (xobjects rd) @ '' >>''
                 else buf);
          buf = (if len (extgstates rd) > 0
                 then writeSortedResources range_keys (buf @ '' /ExtGState <<'') (extgstates rd) @ '' >>''
                 else buf);
          buf = (if HasResources rd
                 then buf @ '' /ProcSet [/PDF /Text /ImageB /ImageC /ImageI]''
                 else buf)
      in buf @ '' >>'')"

text \<open>
  The serialization as the specification words it: a sub-dictionary is present exactly
  when its namespace is non-empty, and lists its entries by ascending resource name.
\<close>

definition spec_subdict :: "string \<Rightarrow> (string, int) fmap \<Rightarrow> bytes" where
  "spec_subdict key m =
     (if m = fmempty then []
      else '' /'' @ key @ '' <<''
           @ concat (map (resource_entry m) (sorted_list_of_fset (fmdom m))) @ '' >>'')"

definition spec_toBytes :: "ResourceDictionary \<Rightarrow> bytes" where
  "spec_toBytes rd =
     ''<<'' @ spec_subdict ''Font'' (fonts rd) @ spec_subdict ''XObject'' (xobjects rd)
       @ spec_subdict ''ExtGState'' (extgstates rd)
       @ (if fonts rd = fmempty \<and> xobjects rd = fmempty \<and> extgstates rd = fmempty then []
          else '' /ProcSet [/PDF /Text /ImageB /ImageC /ImageI]'')
       @ '' >>''"

section \<open>The writer's data (internal/writer)\<close>

text \<open>
  Modelled from the spec: \<open>IndirectObject\<close>, \<open>NewIndirectObject\<close> and \<open>WriteTo\<close> (the file
  that declares them is not among the sources). The specification gives the object as
  number, generation and body, the constructor as pure, and the serialization as
  \<open><number> 0 obj\n<body>\nendobj\n\<close>, the generation being 0 throughout.
\<close>

record IndirectObject =
  Number :: int
  Generation :: int
  Data :: bytes

definition NewIndirectObject :: "int \<Rightarrow> int \<Rightarrow> bytes \<Rightarrow> IndirectObject" where
  "NewIndirectObject num gen body = \<lparr>Number = num, Generation = gen, Data = body\<rparr>"

definition IndirectObject_bytes :: "IndirectObject \<Rightarrow> bytes" where
  "IndirectObject_bytes obj =
     fmt_d (Number obj) @ '' '' @ fmt_d (Generation obj) @ '' obj\<newline>'' @ Data obj @ ''\<newline>endobj\<newline>''"

text \<open>
  The output sinks. An \<open>os.File\<close> is its contents, its position and whether it has been
  closed; \<open>Write\<close> stores at the position and advances it, \<open>Seek(0, 1)\<close> reports the
  position. The \<open>io.Writer\<close> of the second constructor is an in-memory buffer that appends.
  Either sink may carry a fault, the error with which it then refuses every write.
\<close>

record File =
  contents :: bytes
  position :: int
  is_closed :: bool
  fault :: "error option"

record MemWriter =
  received :: bytes
  fault :: "error option"

record countingWriter =
  cw_w :: MemWriter
  cw_n :: int

text \<open>
  \<open>bufio.Writer\<close>: the bytes not yet handed to the sink, and its sticky error. The
  buffer's capacity is not modelled: bytes reach the sink at \<open>Flush\<close>.
\<close>

record bufio_Writer =
  bw_buf :: bytes
  bw_err :: "error option"

record PdfWriter =
  file' :: "File option"
  writer :: bufio_Writer
  countWriter :: "countingWriter option"
  objects :: "IndirectObject list"
  offsets :: "(int, int) fmap"
  nextObjNum :: int
  closed :: bool

definition File_Write :: "File \<Rightarrow> bytes \<Rightarrow> error option \<times> File" where
  "File_Write f p =
     (if is_closed f then (Some ''file already closed'', f)
      else case File.fault f of
             Some e \<Rightarrow> (Some e, f)
           | None \<Rightarrow>
               (let k = nat (position f);
                    before = take k (contents f) @ replicate (k - length (contents f)) (CHR 0x00)
                in (None, f\<lparr>contents := before @ p @ drop (k + length p) (contents f),
                             position := position f + int (length p)\<rparr>)))"

definition File_Seek_current :: "File \<Rightarrow> error + int" where
  "File_Seek_current f = (if is_closed f then Inl ''file already closed'' else Inr (position f))"

definition File_Close :: "File \<Rightarrow> error option \<times> File" where
  "File_Close f =
     (if is_closed f then (Some ''file already closed'', f) else (None, f\<lparr>is_closed := True\<rparr>))"

definition MemWriter_Write :: "MemWriter \<Rightarrow> bytes \<Rightarrow> int \<times> error option \<times> MemWriter" where
  "MemWriter_Write m p =
     (case MemWriter.fault m of
        Some e \<Rightarrow> (0, Some e, m)
      | None \<Rightarrow> (int (length p), None, m\<lparr>received := received m @ p\<rparr>))"

definition countingWriter_Write :: "countingWriter \<Rightarrow> bytes \<Rightarrow> int \<times> error option \<times> countingWriter" where
  "countingWriter_Write cw p =
     (case MemWriter_Write (cw_w cw) p of
        (k, e, m) \<Rightarrow> (k, e, cw\<lparr>cw_w := m, cw_n := cw_n cw + k\<rparr>))"

text \<open>
  The writer that \<open>bufio\<close> wraps: the file after \<open>NewPdfWriter\<close>, the counting writer after
  \<open>NewPdfWriterFromWriter\<close>. No constructor builds a writer without either.
\<close>

definition underlying_Write :: "PdfWriter \<Rightarrow> bytes \<Rightarrow> error option \<times> PdfWriter" where
  "underlying_Write pw p =
     (case file' pw of
        Some f \<Rightarrow> (case File_Write f p of (e, f') \<Rightarrow> (e, pw\<lparr>file' := Some f'\<rparr>))
      | None \<Rightarrow>
          (case countWriter pw of
             Some cw \<Rightarrow> (case countingWriter_Write cw p of (k, e, cw') \<Rightarrow> (e, pw\<lparr>countWriter := Some cw'\<rparr>))
           | None \<Rightarrow> (Some ''no file or counting writer available'', pw)))"

definition Flush :: "PdfWriter \<Rightarrow> error option \<times> PdfWriter" where
  "Flush pw =
     (case bw_err (writer pw) of
        Some e \<Rightarrow> (Some e, pw)
      | None \<Rightarrow>
          if bw_buf (writer pw) = [] then (None, pw)
          else (case underlying_Write pw (bw_buf (writer pw)) of
                  (Some e, pw') \<Rightarrow> (Some e, pw'\<lparr>writer := (writer pw')\<lparr>bw_err := Some e\<rparr>\<rparr>)
                | (None, pw') \<Rightarrow> (None, pw'\<lparr>writer := (writer pw')\<lparr>bw_buf := []\<rparr>\<rparr>)))"

definition WriteString :: "PdfWriter \<Rightarrow> bytes \<Rightarrow> error option \<times> PdfWriter" where
  "WriteString pw s =
     (case bw_err (writer pw) of
        Some e \<Rightarrow> (Some e, pw)
      | None \<Rightarrow> (None, pw\<lparr>writer := (writer pw)\<lparr>bw_buf := bw_buf (writer pw) @ s\<rparr>\<rparr>))"

definition WriteTo :: "IndirectObject \<Rightarrow> PdfWriter \<Rightarrow> error option \<times> PdfWriter" where
  "WriteTo obj pw = WriteString pw (IndirectObject_bytes obj)"

text \<open>Sequencing of fallible steps, and \<open>fmt.Errorf("<stage>: %w", err)\<close>.\<close>

definition andThen ::
  "error option \<times> PdfWriter \<Rightarrow> (PdfWriter \<Rightarrow> error option \<times> PdfWriter) \<Rightarrow> error option \<times> PdfWriter" where
  "andThen r f = (case r of (Some e, pw) \<Rightarrow> (Some e, pw) | (None, pw) \<Rightarrow> f pw)"

definition wrapErr :: "string \<Rightarrow> error option \<times> 's \<Rightarrow> error option \<times> 's" where
  "wrapErr stage r = (case r of (Some e, s) \<Rightarrow> (Some (stage @ e), s) | (None, s) \<Rightarrow> (None, s))"

definition NewPdfWriter :: "error + File \<Rightarrow> error + PdfWriter" where
  "NewPdfWriter created =
     (case created of
        Inl e \<Rightarrow> Inl (''failed to create file: '' @ e)
      | Inr f \<Rightarrow>
          Inr \<lparr>file' = Some f, writer = \<lparr>bw_buf = [], bw_err = None\<rparr>, countWriter = None,
               objects = [], offsets = fmempty, nextObjNum = 1, closed = False\<rparr>)"

definition NewPdfWriterFromWriter :: "MemWriter \<Rightarrow> PdfWriter" where
  "NewPdfWriterFromWriter m =
     \<lparr>file' = None, writer = \<lparr>bw_buf = [], bw_err = None\<rparr>,
      countWriter = Some \<lparr>cw_w = m, cw_n = 0\<rparr>,
      objects = [], offsets = fmempty, nextObjNum = 1, closed = False\<rparr>"

text \<open>What \<open>os.Create\<close> returns on success: an empty file, open, at position 0.\<close>

definition os_Create :: "error option \<Rightarrow> File" where
  "os_Create flt = \<lparr>contents = [], position = 0, is_closed = False, fault = flt\<rparr>"

definition allocateObjNum :: "PdfWriter \<Rightarrow> int \<times> PdfWriter" where
  "allocateObjNum pw = (nextObjNum pw, pw\<lparr>nextObjNum := nextObjNum pw + 1\<rparr>)"

definition getCurrentOffset :: "PdfWriter \<Rightarrow> (error + int) \<times> PdfWriter" where
  "getCurrentOffset pw =
     (case Flush pw of
        (Some e, pw') \<Rightarrow> (Inl e, pw')
      | (None, pw') \<Rightarrow>
          (case file' pw' of
             Some f \<Rightarrow> (File_Seek_current f, pw')
           | None \<Rightarrow>
               (case countWriter pw' of
                  Some cw \<Rightarrow> (Inr (cw_n cw), pw')
                | None \<Rightarrow> (Inl ''no file or counting writer available'', pw'))))"

section \<open>Collaborators of the writer\<close>

text \<open>
  Modelled from the spec: the document model (package \<open>document\<close> is not among the
  sources). The specification gives it a page count, a fallible lookup of a page by index, a
  MediaBox and an optional CropBox of four numbers, a rotation in degrees, a version string,
  the optional metadata strings and two timestamps with their zone offset.
\<close>

record Rectangle =
  llx :: real
  lly :: real
  urx :: real
  ury :: real

typedecl Annotation

record document_Page =
  MediaBox :: Rectangle
  CropBox :: "Rectangle option"
  Rotation :: int
  Annotations :: "Annotation list"

definition AnnotationCount :: "document_Page \<Rightarrow> int" where
  "AnnotationCount pg = int (length (Annotations pg))"

record Time =
  Year :: int
  Month :: int
  Day :: int
  Hour :: int
  Minute :: int
  Second :: int
  ZoneOffset :: int

record Document =
  Version :: string
  Title :: string
  Author :: string
  Subject :: string
  Creator :: string
  Producer :: string
  CreationDate :: Time
  ModificationDate :: Time
  Pages :: "document_Page list"
  CatalogAttributes :: bytes

definition PageCount :: "Document \<Rightarrow> int" where
  "PageCount doc = int (length (Pages doc))"

definition Document_Page :: "Document \<Rightarrow> int \<Rightarrow> error + document_Page" where
  "Document_Page doc i =
     (if 0 \<le> i \<and> i < PageCount doc then Inr (Pages doc ! nat i)
      else Inl ''page index out of range'')"

text \<open>
  The operations of a page and the fonts and images they name. The writer reads the
  \<open>Type\<close> and the \<open>Image\<close> of a graphics operation; its remaining fields
  (coordinates, text, colours) are for the collaborators and are kept as one uninterpreted
  payload, \<open>Rest\<close>.
\<close>

typedecl TextOp
typedecl TTFont
typedecl FontSubset

text \<open>
  Modelled from the spec: the type of a standard font is missing from the sources at
  hand. A standard font is kept as its base name, the name its font ID carries
  (\<open>std:Helvetica\<close>).
\<close>

datatype Font = Font (BaseFont: string)

record ImageData =
  Width :: int
  Height :: int
  ColorSpace :: string
  BitsPerComponent :: int
  Format :: string
  Data :: bytes
  AlphaMask :: bytes

record GraphicsOp =
  Type :: int
  Image :: "ImageData option"
  Rest :: string

record EmbeddedFont =
  TTF :: TTFont
  Subset :: "FontSubset option"

text \<open>
  The two maps of a font collection, each as the list of its entries in the order in
  which \<open>range\<close> yields them.
\<close>

record FontCollection =
  Standard14 :: "(string \<times> Font) list"
  Embedded :: "(string \<times> EmbeddedFont) list"

text \<open>
  The functions of the package that the sources at hand call but do not contain, and the
  two choices that Go leaves to its runtime and library (the order of \<open>range\<close> over a map,
  the rendering of a \<open>float64\<close> by \<open>%.2f\<close>). They are parameters of the model.
  \<^item> A function that takes the allocator (\<open>WriteFont\<close>, \<open>WriteAllAnnotations\<close>) takes the
    next object number and returns the one after its last allocation.
  \<^item> \<open>Subset.Build\<close> changes the subset in place; the content generator reaches the
    built subsets through the operations, the model hands them over as an argument.
\<close>

record collaborators =
  Validate :: "Document \<Rightarrow> error option"
  Sprintf_2f :: "real \<Rightarrow> string"
  map_range :: range_order
  GenerateContentStream :: "TextOp list \<Rightarrow> error + bytes \<times> ResourceDictionary"
  CreateFontObjects :: "TextOp list \<Rightarrow> error + (string \<times> Font) list"
  WriteFontObject :: "Font \<Rightarrow> int \<Rightarrow> error + bytes"
  CreateContentStreamObject :: "int \<Rightarrow> bytes \<Rightarrow> bool \<Rightarrow> IndirectObject"
  CreateFontCollectionWithGraphics :: "TextOp list \<Rightarrow> GraphicsOp list \<Rightarrow> error + FontCollection"
  Subset_Build :: "FontSubset \<Rightarrow> FontSubset"
  GenerateContentStreamWithGraphics ::
    "(string \<times> EmbeddedFont) list \<Rightarrow> TextOp list \<Rightarrow> GraphicsOp list
       \<Rightarrow> error + bytes \<times> ResourceDictionary"
  WriteFont :: "EmbeddedFont \<Rightarrow> int \<Rightarrow> (error + IndirectObject list \<times> int) \<times> int"
  WriteAllAnnotations :: "document_Page \<Rightarrow> int \<Rightarrow> (error + IndirectObject list \<times> int list) \<times> int"
  SetImageObjNum :: "ResourceDictionary \<Rightarrow> string \<Rightarrow> int \<Rightarrow> ResourceDictionary"

section \<open>Image XObjects (pages.go)\<close>

definition createImageXObject :: "int \<Rightarrow> ImageData \<Rightarrow> int \<Rightarrow> IndirectObject" where
  "createImageXObject objNum img smaskObjNum =
     (let b = ''<< /Type /XObject /Subtype /Image'';
          b = b @ '' /Width '' @ fmt_d (Width img) @ '' /Height '' @ fmt_d (Height img);
          b = b @ '' /ColorSpace /'' @ ColorSpace img;
          b = b @ '' /BitsPerComponent '' @ fmt_d (BitsPerComponent img);
          b = (if Format img = ''jpeg'' then b @ '' /Filter /DCTDecode''
               else if Format img = ''png'' then b @ '' /Filter /FlateDecode''
               else b);
          b = (if smaskObjNum > 0 then b @ '' /SMask '' @ fmt_d smaskObjNum @ '' 0 R'' else b);
          b = b @ '' /Length '' @ fmt_d (int (length (Data img))) @ '' >>\<newline>'';
          b = b @ ''stream\<newline>'';
          b = b @ Data img;
          b = b @ ''\<newline>endstream''
      in NewIndirectObject objNum 0 b)"

definition createSMaskObject :: "int \<Rightarrow> ImageData \<Rightarrow> IndirectObject" where
  "createSMaskObject objNum img =
     (let b = ''<< /Type /XObject /Subtype /Image'';
          b = b @ '' /Width '' @ fmt_d (Width img) @ '' /Height '' @ fmt_d (Height img);
          b = b @ '' /ColorSpace /DeviceGray'';
          b = b @ '' /BitsPerComponent 8'';
          b = b @ '' /Filter /FlateDecode'';
          b = b @ '' /Length '' @ fmt_d (int (length (AlphaMask img))) @ '' >>\<newline>'';
          b = b @ ''stream\<newline>'';
          b = b @ AlphaMask img;
          b = b @ ''\<newline>endstream''
      in NewIndirectObject objNum 0 b)"

text \<open>The first loop of \<open>createAndAssignImageXObjects\<close>: the images of the operations.\<close>

fun collectImages :: "GraphicsOp list \<Rightarrow> ImageData list" where
  "collectImages [] = []"
| "collectImages (gop # gops) =
     (case Image gop of
        Some img \<Rightarrow> (if Type gop = 3 then img # collectImages gops else collectImages gops)
      | None \<Rightarrow> collectImages gops)"

text \<open>
  The second loop, from index \<open>i\<close> on: the state is the objects made so far, the writer and
  the resource dictionary.
\<close>

fun imageLoop ::
  "collaborators \<Rightarrow> int \<Rightarrow> ImageData list \<Rightarrow> IndirectObject list \<times> PdfWriter \<times> ResourceDictionary
     \<Rightarrow> IndirectObject list \<times> PdfWriter \<times> ResourceDictionary" where
  "imageLoop env i [] st = st"
| "imageLoop env i (img # imgs) (objs, pw, resources) =
     (case allocateObjNum pw of (imageObjNum, pw) \<Rightarrow>
      case (if length (AlphaMask img) > 0
            then (case allocateObjNum pw of (smaskObjNum, pw) \<Rightarrow>
                    (smaskObjNum, pw, objs @ [createSMaskObject smaskObjNum img]))
            else (0, pw, objs)) of (smaskObjNum, pw, objs) \<Rightarrow>
      let imageObj = createImageXObject imageObjNum img smaskObjNum;
          objs = objs @ [imageObj];
          imageResName = ''Im'' @ fmt_d (i + 1);
          resources = SetImageObjNum env resources imageResName imageObjNum
      in imageLoop env (i + 1) imgs (objs, pw, resources))"

definition createAndAssignImageXObjects ::
  "collaborators \<Rightarrow> PdfWriter \<Rightarrow> GraphicsOp list \<Rightarrow> ResourceDictionary
     \<Rightarrow> (IndirectObject list \<times> error option) \<times> PdfWriter \<times> ResourceDictionary" where
  "createAndAssignImageXObjects env pw graphicsOps' resources =
     (case imageLoop env 0 (collectImages graphicsOps') ([], pw, resources) of
        (objs, pw', resources') \<Rightarrow> ((objs, None), pw', resources'))"

section \<open>Pages (pages.go)\<close>

fun hasTextBlockOps :: "GraphicsOp list \<Rightarrow> bool" where
  "hasTextBlockOps [] = False"
| "hasTextBlockOps (gop # gops) = (if Type gop = 22 then True else hasTextBlockOps gops)"

definition createPagesRoot :: "int \<Rightarrow> int list \<Rightarrow> int \<Rightarrow> IndirectObject" where
  "createPagesRoot objNum pageRefs count' =
     (let b = ''<<'';
          b = b @ '' /Type /Pages'';
          b = b @ '' /Kids ['';
          b = foldl (\<lambda>b (i, ref). (if i > 0 then b @ '' '' else b) @ fmt_d ref @ '' 0 R'') b
                (zip [0..<length pageRefs] pageRefs);
          b = b @ '']'';
          b = b @ '' /Count '' @ fmt_d count';
          b = b @ '' >>''
      in NewIndirectObject objNum 0 b)"

text \<open>\<open>fmt.Sprintf(" /<key> [%.2f %.2f %.2f %.2f]", llx, lly, urx, ury)\<close>.\<close>

definition boxEntry :: "collaborators \<Rightarrow> string \<Rightarrow> Rectangle \<Rightarrow> bytes" where
  "boxEntry env key box =
     '' /'' @ key @ '' ['' @ Sprintf_2f env (llx box) @ '' '' @ Sprintf_2f env (lly box) @ '' ''
       @ Sprintf_2f env (urx box) @ '' '' @ Sprintf_2f env (ury box) @ '']''"

text \<open>
  The opening of the page dictionary, up to the rotation: the same lines at the head of
  \<open>createPageWithContent\<close> and of \<open>createPageWithAllContent\<close>.
\<close>

definition pageDictHead :: "collaborators \<Rightarrow> document_Page \<Rightarrow> int \<Rightarrow> bytes" where
  "pageDictHead env page parentRef =
     (let d = ''<<'';
          d = d @ '' /Type /Page'';
          d = d @ '' /Parent '' @ fmt_d parentRef @ '' 0 R'';
          d = d @ boxEntry env ''MediaBox'' (MediaBox page);
          d = (case CropBox page of Some cropBox \<Rightarrow> d @ boxEntry env ''CropBox'' cropBox | None \<Rightarrow> d);
          d = (if Rotation page \<noteq> 0 then d @ '' /Rotate '' @ fmt_d (Rotation page) else d)
      in d)"

text \<open>\<open>bytes.Index\<close> and \<open>bytes.LastIndex\<close>: the first and the last place of \<open>sep\<close>, or -1.\<close>

fun Index_from :: "int \<Rightarrow> bytes \<Rightarrow> bytes \<Rightarrow> int" where
  "Index_from i [] sep = (if sep = [] then i else - 1)"
| "Index_from i (c # cs) sep =
     (if take (length sep) (c # cs) = sep then i else Index_from (i + 1) cs sep)"

definition bytes_Index :: "bytes \<Rightarrow> bytes \<Rightarrow> int" where
  "bytes_Index s sep = Index_from 0 s sep"

definition bytes_LastIndex :: "bytes \<Rightarrow> bytes \<Rightarrow> int" where
  "bytes_LastIndex s sep =
     (let r = Index_from 0 (rev s) (rev sep)
      in if r < 0 then - 1 else int (length s) - int (length sep) - r)"

text \<open>\<open>s[lo:hi]\<close> for \<open>0 \<le> lo \<le> hi \<le> len(s)\<close>.\<close>

definition slice :: "bytes \<Rightarrow> int \<Rightarrow> int \<Rightarrow> bytes" where
  "slice s lo hi = take (nat (hi - lo)) (drop (nat lo) s)"

text \<open>
  The loop over the standard fonts, the same in both page functions: a number is taken
  for every font, an object is made only when the font serializes to a dictionary.
\<close>

fun standardFontLoop ::
  "collaborators \<Rightarrow> (string \<times> Font) list \<Rightarrow> IndirectObject list \<times> PdfWriter \<times> ResourceDictionary
     \<Rightarrow> IndirectObject list \<times> PdfWriter \<times> ResourceDictionary" where
  "standardFontLoop env [] st = st"
| "standardFontLoop env ((fontName, fontDef) # rest) (fontObjs, pw, resources) =
     (case allocateObjNum pw of (fontObjNum, pw) \<Rightarrow>
      case WriteFontObject env fontDef fontObjNum of
        Inl e \<Rightarrow> standardFontLoop env rest (fontObjs, pw, resources)
      | Inr fontBytes \<Rightarrow>
          (let dictStart = bytes_Index fontBytes ''<<'';
               dictEnd = bytes_LastIndex fontBytes ''>>'' + 2
           in if dictStart \<ge> 0 \<and> dictEnd > dictStart
              then (let fontDict = slice fontBytes dictStart dictEnd;
                        fontObjs = fontObjs @ [NewIndirectObject fontObjNum 0 fontDict];
                        fontKey = ''std:'' @ fontName;
                        resources = snd (SetFontObjNumByID resources fontKey fontObjNum)
                    in standardFontLoop env rest (fontObjs, pw, resources))
              else standardFontLoop env rest (fontObjs, pw, resources)))"

fun embeddedFontLoop ::
  "collaborators \<Rightarrow> (string \<times> EmbeddedFont) list \<Rightarrow> IndirectObject list \<times> PdfWriter \<times> ResourceDictionary
     \<Rightarrow> IndirectObject list \<times> PdfWriter \<times> ResourceDictionary" where
  "embeddedFontLoop env [] st = st"
| "embeddedFontLoop env ((fontID, embFont) # rest) (fontObjs, pw, resources) =
     (case WriteFont env embFont (nextObjNum pw) of
        (Inl e, next') \<Rightarrow> embeddedFontLoop env rest (fontObjs, pw\<lparr>nextObjNum := next'\<rparr>, resources)
      | (Inr (fontObjects, fontObjNum), next') \<Rightarrow>
          (let fontObjs = fontObjs @ fontObjects;
               fontKey = ''custom:'' @ fontID;
               resources = snd (SetFontObjNumByID resources fontKey fontObjNum)
           in embeddedFontLoop env rest (fontObjs, pw\<lparr>nextObjNum := next'\<rparr>, resources)))"

text \<open>The result of a page function: the page object, the content object if any, the others.\<close>

type_synonym page_result = "IndirectObject \<times> IndirectObject option \<times> IndirectObject list"

definition createPageWithContent ::
  "collaborators \<Rightarrow> PdfWriter \<Rightarrow> document_Page \<Rightarrow> int \<Rightarrow> int \<Rightarrow> TextOp list
     \<Rightarrow> page_result \<times> PdfWriter" where
  "createPageWithContent env pw page objNum parentRef textOps =
     (let pageDict = pageDictHead env page parentRef
      in if length textOps > 0
         then (case GenerateContentStream env textOps of
                 Inl e \<Rightarrow>
                   (let pageDict = pageDict @ '' /Resources << >>'';
                        pageDict = pageDict @ '' >>''
                    in ((NewIndirectObject objNum 0 pageDict, None, []), pw))
               | Inr (content, resources) \<Rightarrow>
                   (case CreateFontObjects env textOps of
                      Inl e \<Rightarrow>
                        (let pageDict = pageDict @ '' /Resources << >>'';
                             pageDict = pageDict @ '' >>''
                         in ((NewIndirectObject objNum 0 pageDict, None, []), pw))
                    | Inr fontMap \<Rightarrow>
                        (case standardFontLoop env fontMap ([], pw, resources) of
                           (fontObjs, pw, resources) \<Rightarrow>
                             (let pageDict = pageDict @ '' /Resources '';
                                  pageDict = pageDict @ Bytes (map_range env) resources
                              in case allocateObjNum pw of (contentObjNum, pw) \<Rightarrow>
                                 (let contentObj = CreateContentStreamObject env contentObjNum content True;
                                      pageDict = pageDict @ '' /Contents '' @ fmt_d contentObjNum @ '' 0 R'';
                                      pageDict = pageDict @ '' >>''
                                  in ((NewIndirectObject objNum 0 pageDict, Some contentObj, fontObjs), pw))))))
         else (let pageDict = pageDict @ '' /Resources << >>'';
                   pageDict = pageDict @ '' >>''
               in ((NewIndirectObject objNum 0 pageDict, None, []), pw)))"

text \<open>STEP 1 of \<open>createPageWithAllContent\<close>: every embedded font that has a subset builds it.\<close>

definition buildSubsets :: "collaborators \<Rightarrow> (string \<times> EmbeddedFont) list \<Rightarrow> (string \<times> EmbeddedFont) list" where
  "buildSubsets env embedded =
     map (\<lambda>(fontID, embFont).
            (fontID, case Subset embFont of
                       Some s \<Rightarrow> embFont\<lparr>Subset := Some (Subset_Build env s)\<rparr>
                     | None \<Rightarrow> embFont)) embedded"

text \<open>The \<open>/Annots\<close> array: \<open>[r1 0 R r2 0 R ...]\<close>.\<close>

definition annotsArray :: "int list \<Rightarrow> bytes" where
  "annotsArray annotRefs =
     foldl (\<lambda>b (i, ref). (if i > 0 then b @ '' '' else b) @ fmt_d ref @ '' 0 R'') '' /Annots [''
       (zip [0..<length annotRefs] annotRefs) @ '']''"

text \<open>
  The image step of a page: \<open>createAndAssignImageXObjects\<close> has this type. The body of
  \<open>createPageWithAllContent\<close> takes the step as a parameter, because the function of the
  sources returns no error on any input, and the branch of its caller that handles one can
  only be met with another step.
\<close>

type_synonym image_step =
  "collaborators \<Rightarrow> PdfWriter \<Rightarrow> GraphicsOp list \<Rightarrow> ResourceDictionary
     \<Rightarrow> (IndirectObject list \<times> error option) \<times> PdfWriter \<times> ResourceDictionary"

definition createPageWithAllContent_body ::
  "image_step \<Rightarrow> collaborators \<Rightarrow> PdfWriter \<Rightarrow> document_Page \<Rightarrow> int \<Rightarrow> int \<Rightarrow> TextOp list
     \<Rightarrow> GraphicsOp list \<Rightarrow> page_result \<times> PdfWriter" where
  "createPageWithAllContent_body imageStep env pw page objNum parentRef textOps graphicsOps' =
     (let pageDict = pageDictHead env page parentRef;
          degraded = (let pageDict = pageDict @ '' /Resources << >>'';
                          pageDict = pageDict @ '' >>''
                      in ((NewIndirectObject objNum 0 pageDict, None, []), pw));
          annotate = (\<lambda>(pageDict, contentObj, fontObjs, pw).
            if AnnotationCount page > 0
            then (case WriteAllAnnotations env page (nextObjNum pw) of
                    (Inr (annotObjs, annotRefs), next') \<Rightarrow>
                      if length annotRefs > 0
                      then (pageDict @ annotsArray annotRefs, contentObj, fontObjs @ annotObjs,
                            pw\<lparr>nextObjNum := next'\<rparr>)
                      else (pageDict, contentObj, fontObjs, pw\<lparr>nextObjNum := next'\<rparr>)
                  | (Inl e, next') \<Rightarrow> (pageDict, contentObj, fontObjs, pw\<lparr>nextObjNum := next'\<rparr>))
            else (pageDict, contentObj, fontObjs, pw));
          finish = (\<lambda>st. case annotate st of (pageDict, contentObj, fontObjs, pw) \<Rightarrow>
            ((NewIndirectObject objNum 0 (pageDict @ '' >>''), contentObj, fontObjs), pw))
      in if length textOps > 0 \<or> length graphicsOps' > 0
         then (let hasTextContent = (length textOps > 0 \<or> hasTextBlockOps graphicsOps')
               in case (if hasTextContent
                        then (case CreateFontCollectionWithGraphics env textOps graphicsOps' of
                                Inl e \<Rightarrow> Inl e
                              | Inr fc \<Rightarrow> Inr (Some (fc\<lparr>Embedded := buildSubsets env (Embedded fc)\<rparr>)))
                        else Inr None) of
                    Inl e \<Rightarrow> degraded
                  | Inr fontCollection \<Rightarrow>
               (case GenerateContentStreamWithGraphics env
                       (case fontCollection of Some fc \<Rightarrow> Embedded fc | None \<Rightarrow> [])
                       textOps graphicsOps' of
                  Inl e \<Rightarrow> degraded
                | Inr (content, resources) \<Rightarrow>
               (case (case fontCollection of
                        Some fc \<Rightarrow>
                          embeddedFontLoop env (Embedded fc)
                            (standardFontLoop env (Standard14 fc) ([], pw, resources))
                      | None \<Rightarrow> ([], pw, resources)) of (fontObjs, pw, resources) \<Rightarrow>
               (case imageStep env pw graphicsOps' resources of ((imageObjs, imgErr), pw, resources) \<Rightarrow>
               (let fontObjs = (case imgErr of Some e \<Rightarrow> fontObjs | None \<Rightarrow> fontObjs @ imageObjs);
                    pageDict = pageDict @ '' /Resources '';
                    pageDict = pageDict @ Bytes (map_range env) resources
                in case allocateObjNum pw of (contentObjNum, pw) \<Rightarrow>
                   (let contentObj = CreateContentStreamObject env contentObjNum content True;
                        pageDict = pageDict @ '' /Contents '' @ fmt_d contentObjNum @ '' 0 R''
                    in finish (pageDict, Some contentObj, fontObjs, pw)))))))
         else finish (pageDict @ '' /Resources << >>'', None, [], pw))"

definition createPageWithAllContent ::
  "collaborators \<Rightarrow> PdfWriter \<Rightarrow> document_Page \<Rightarrow> int \<Rightarrow> int \<Rightarrow> TextOp list
     \<Rightarrow> GraphicsOp list \<Rightarrow> page_result \<times> PdfWriter" where
  "createPageWithAllContent = createPageWithAllContent_body createAndAssignImageXObjects"

section \<open>The page tree (pages.go)\<close>

text \<open>\<open>m[i]\<close> on a Go map whose values are slices: a missing key reads as the empty slice.\<close>

definition ops_at :: "(int, 'a list) fmap \<Rightarrow> int \<Rightarrow> 'a list" where
  "ops_at m i = (case fmlookup m i of Some ops \<Rightarrow> ops | None \<Rightarrow> [])"

text \<open>
  The loop over the pages, from index \<open>i\<close> on. The state is the objects and the page
  references collected so far, and the writer. \<open>mk\<close> is the page function called.
\<close>

function pageTreeLoop ::
  "(PdfWriter \<Rightarrow> document_Page \<Rightarrow> int \<Rightarrow> int \<Rightarrow> page_result \<times> PdfWriter) \<Rightarrow> Document \<Rightarrow> int
     \<Rightarrow> IndirectObject list \<times> int list \<times> PdfWriter
     \<Rightarrow> error option \<times> IndirectObject list \<times> int list \<times> PdfWriter" where
  "pageTreeLoop mk doc i (objs, pageRefs, pw) =
     (if i < PageCount doc
      then (case Document_Page doc i of
              Inl e \<Rightarrow> (Some (''failed to get page '' @ fmt_d i @ '': '' @ e), objs, pageRefs, pw)
            | Inr page \<Rightarrow>
                (case allocateObjNum pw of (pageRef, pw) \<Rightarrow>
                 case mk pw page i pageRef of ((pageObj, contentObj, fontObjs), pw) \<Rightarrow>
                   pageTreeLoop mk doc (i + 1)
                     (objs @ [pageObj] @ (case contentObj of Some c \<Rightarrow> [c] | None \<Rightarrow> []) @ fontObjs,
                      pageRefs @ [pageRef], pw)))
      else (None, objs, pageRefs, pw))"
  by pat_completeness auto
termination
  by (relation "measure (\<lambda>(mk, doc, i, st). nat (PageCount doc - i))") auto

declare pageTreeLoop.simps [simp del]

text \<open>The result of a page tree function: the objects and the number of the root, or an error.\<close>

definition pageTree ::
  "(int \<Rightarrow> PdfWriter \<Rightarrow> document_Page \<Rightarrow> int \<Rightarrow> int \<Rightarrow> page_result \<times> PdfWriter) \<Rightarrow> PdfWriter \<Rightarrow> Document
     \<Rightarrow> (error + IndirectObject list \<times> int) \<times> PdfWriter" where
  "pageTree mk pw doc =
     (case allocateObjNum pw of (pagesRootRef, pw) \<Rightarrow>
      case pageTreeLoop (mk pagesRootRef) doc 0 ([], [], pw) of
        (Some e, objs, pageRefs, pw) \<Rightarrow> (Inl e, pw)
      | (None, objs, pageRefs, pw) \<Rightarrow>
          (let pagesRootObj = createPagesRoot pagesRootRef pageRefs (PageCount doc)
           in (Inr (pagesRootObj # objs, pagesRootRef), pw)))"

definition createPageTreeWithContent ::
  "collaborators \<Rightarrow> PdfWriter \<Rightarrow> Document \<Rightarrow> (int, TextOp list) fmap
     \<Rightarrow> (error + IndirectObject list \<times> int) \<times> PdfWriter" where
  "createPageTreeWithContent env pw doc pageContents =
     pageTree (\<lambda>pagesRootRef pw page i pageRef.
                 createPageWithContent env pw page pageRef pagesRootRef (ops_at pageContents i))
       pw doc"

definition createPageTreeWithAllContent ::
  "collaborators \<Rightarrow> PdfWriter \<Rightarrow> Document \<Rightarrow> (int, TextOp list) fmap \<Rightarrow> (int, GraphicsOp list) fmap
     \<Rightarrow> (error + IndirectObject list \<times> int) \<times> PdfWriter" where
  "createPageTreeWithAllContent env pw doc textContents graphicsContents =
     pageTree (\<lambda>pagesRootRef pw page i pageRef.
                 createPageWithAllContent env pw page pageRef pagesRootRef
                   (ops_at textContents i) (ops_at graphicsContents i))
       pw doc"

definition createPageTree ::
  "collaborators \<Rightarrow> PdfWriter \<Rightarrow> Document \<Rightarrow> (error + IndirectObject list \<times> int) \<times> PdfWriter" where
  "createPageTree env pw doc = createPageTreeWithContent env pw doc fmempty"

section \<open>The file (pdf_writer.go)\<close>

text \<open>
  Modelled from the spec: \<open>createCatalog\<close> (its file is not among the sources). The
  specification has the catalog allocated from the same counter, with the body
  \<open><< /Type /Catalog /Pages <root> 0 R >>\<close> plus optional top-level attributes of the
  document, here the bytes \<open>CatalogAttributes\<close>.
\<close>

definition createCatalog :: "PdfWriter \<Rightarrow> int \<Rightarrow> Document \<Rightarrow> IndirectObject \<times> PdfWriter" where
  "createCatalog pw pagesRef doc =
     (case allocateObjNum pw of (catalogNum, pw) \<Rightarrow>
        (NewIndirectObject catalogNum 0
           (''<< /Type /Catalog /Pages '' @ fmt_d pagesRef @ '' 0 R'' @ CatalogAttributes doc @ '' >>''),
         pw))"

definition writeHeader :: "PdfWriter \<Rightarrow> string \<Rightarrow> error option \<times> PdfWriter" where
  "writeHeader pw version =
     andThen (wrapErr ''failed to write PDF header: '' (WriteString pw (''%PDF-'' @ version @ ''\<newline>'')))
       (\<lambda>pw. wrapErr ''failed to write binary marker: ''
                (WriteString pw [CHR 0x25, CHR 0xE2, CHR 0xE3, CHR 0xCF, CHR 0xD3, CHR 0x0A]))"

text \<open>The loop of \<open>Write\<close> over the objects: measure the offset, record it, write the object.\<close>

fun writeObjects :: "IndirectObject list \<Rightarrow> PdfWriter \<Rightarrow> error option \<times> PdfWriter" where
  "writeObjects [] pw = (None, pw)"
| "writeObjects (obj # objs) pw =
     (case getCurrentOffset pw of
        (Inl e, pw) \<Rightarrow> (Some (''failed to get file position: '' @ e), pw)
      | (Inr pos, pw) \<Rightarrow>
          (let pw = pw\<lparr>offsets := fmupd (Number obj) pos (offsets pw)\<rparr>
           in case WriteTo obj pw of
                (Some e, pw) \<Rightarrow> (Some (''failed to write object '' @ fmt_d (Number obj) @ '': '' @ e), pw)
              | (None, pw) \<Rightarrow> writeObjects objs pw))"

text \<open>The loop of \<open>writeXRef\<close> over the object numbers, from \<open>i\<close> on.\<close>

function xrefLoop :: "int \<Rightarrow> PdfWriter \<Rightarrow> error option \<times> PdfWriter" where
  "xrefLoop i pw =
     (if i < nextObjNum pw
      then (case fmlookup (offsets pw) i of
              None \<Rightarrow> (Some (''missing offset for object '' @ fmt_d i), pw)
            | Some offset \<Rightarrow>
                (let entry = fmt_0d 10 offset @ '' '' @ fmt_0d 5 0 @ '' n \<newline>''
                 in case WriteString pw entry of
                      (Some e, pw') \<Rightarrow>
                        (Some (''failed to write xref entry for object '' @ fmt_d i @ '': '' @ e), pw')
                    | (None, pw') \<Rightarrow> xrefLoop (i + 1) pw'))
      else (None, pw))"
  by pat_completeness auto
termination
  by (relation "measure (\<lambda>(i, pw). nat (nextObjNum pw - i))")
    (auto simp: WriteString_def split: option.splits)

declare xrefLoop.simps [simp del]

definition writeXRef :: "PdfWriter \<Rightarrow> (error + int) \<times> PdfWriter" where
  "writeXRef pw =
     (case getCurrentOffset pw of
        (Inl e, pw) \<Rightarrow> (Inl (''failed to get file position: '' @ e), pw)
      | (Inr xrefOffset, pw) \<Rightarrow>
          (case andThen (wrapErr ''failed to write xref header: '' (WriteString pw ''xref\<newline>''))
                 (\<lambda>pw. andThen (wrapErr ''failed to write subsection header: ''
                                  (WriteString pw (''0 '' @ fmt_d (nextObjNum pw) @ ''\<newline>'')))
                 (\<lambda>pw. andThen (wrapErr ''failed to write object 0 entry: ''
                                  (WriteString pw ''0000000000 65535 f \<newline>''))
                 (\<lambda>pw. xrefLoop 1 pw))) of
             (Some e, pw) \<Rightarrow> (Inl e, pw)
           | (None, pw) \<Rightarrow> (Inr xrefOffset, pw)))"

definition escapePDFString :: "string \<Rightarrow> string" where
  "escapePDFString s = s"

text \<open>
  \<open>formatPDFDate\<close>. Go's \<open>/\<close> and \<open>%\<close> on integers truncate towards zero.
\<close>

definition go_div :: "int \<Rightarrow> int \<Rightarrow> int" where
  "go_div a b = sgn a * sgn b * (\<bar>a\<bar> div \<bar>b\<bar>)"

definition go_mod :: "int \<Rightarrow> int \<Rightarrow> int" where
  "go_mod a b = a - b * go_div a b"

definition formatPDFDate :: "Time \<Rightarrow> string" where
  "formatPDFDate t =
     (let offset = ZoneOffset t;
          offsetHours = go_div offset 3600;
          offsetMinutes = go_div (go_mod offset 3600) 60;
          sign = (if offset < 0 then ''-'' else ''+'');
          offsetHours = (if offset < 0 then - offsetHours else offsetHours);
          offsetMinutes = (if offset < 0 then - offsetMinutes else offsetMinutes)
      in ''D:'' @ fmt_0d 4 (Year t) @ fmt_0d 2 (Month t) @ fmt_0d 2 (Day t) @ fmt_0d 2 (Hour t)
           @ fmt_0d 2 (Minute t) @ fmt_0d 2 (Second t) @ sign @ fmt_0d 2 offsetHours @ [CHR 0x27]
           @ fmt_0d 2 offsetMinutes @ [CHR 0x27])"

definition createInfo :: "int \<Rightarrow> Document \<Rightarrow> IndirectObject" where
  "createInfo objNum doc =
     (let info = ''<<'';
          info = (if Title doc \<noteq> [] then info @ '' /Title ('' @ escapePDFString (Title doc) @ '')'' else info);
          info = (if Author doc \<noteq> [] then info @ '' /Author ('' @ escapePDFString (Author doc) @ '')'' else info);
          info = (if Subject doc \<noteq> [] then info @ '' /Subject ('' @ escapePDFString (Subject doc) @ '')'' else info);
          info = (if Creator doc \<noteq> [] then info @ '' /Creator ('' @ escapePDFString (Creator doc) @ '')'' else info);
          info = (if Producer doc \<noteq> [] then info @ '' /Producer ('' @ escapePDFString (Producer doc) @ '')'' else info);
          info = info @ '' /CreationDate ('' @ formatPDFDate (CreationDate doc) @ '')'';
          info = info @ '' /ModDate ('' @ formatPDFDate (ModificationDate doc) @ '')'';
          info = info @ '' >>''
      in NewIndirectObject objNum 0 info)"

definition writeTrailer :: "PdfWriter \<Rightarrow> int \<Rightarrow> int \<Rightarrow> int \<Rightarrow> Document \<Rightarrow> error option \<times> PdfWriter" where
  "writeTrailer pw catalogRef size' xrefOffset doc =
     andThen (wrapErr ''failed to write trailer keyword: '' (WriteString pw ''trailer\<newline>''))
       (\<lambda>pw.
          let trailerDict = ''<<'';
              trailerDict = trailerDict @ '' /Size '' @ fmt_d size';
              trailerDict = trailerDict @ '' /Root '' @ fmt_d catalogRef @ '' 0 R''
          in case (if Title doc \<noteq> [] \<or> Author doc \<noteq> [] \<or> Subject doc \<noteq> []
                   then (case allocateObjNum pw of (infoRef, pw) \<Rightarrow>
                           (let trailerDict = trailerDict @ '' /Info '' @ fmt_d infoRef @ '' 0 R'';
                                infoObj = createInfo infoRef doc;
                                pw = pw\<lparr>objects := objects pw @ [infoObj]\<rparr>;
                                offset = xrefOffset;
                                pw = pw\<lparr>offsets := fmupd infoRef offset (offsets pw)\<rparr>
                            in (trailerDict, pw)))
                   else (trailerDict, pw)) of (trailerDict, pw) \<Rightarrow>
             (let trailerDict = trailerDict @ '' >>''
              in andThen (wrapErr ''failed to write trailer dictionary: '' (WriteString pw trailerDict))
                (\<lambda>pw. andThen (WriteString pw ''\<newline>'')
                (\<lambda>pw. andThen (wrapErr ''failed to write startxref: '' (WriteString pw ''startxref\<newline>''))
                (\<lambda>pw. andThen (wrapErr ''failed to write xref offset: ''
                                 (WriteString pw (fmt_d xrefOffset @ ''\<newline>'')))
                (\<lambda>pw. wrapErr ''failed to write EOF marker: '' (WriteString pw ''%%EOF\<newline>'')))))))"

text \<open>
  The body that \<open>Write\<close>, \<open>WriteWithPageContent\<close> and \<open>WriteWithAllContent\<close> share line
  for line; they differ in the page tree function they call, \<open>tree\<close>.
\<close>

definition writeDocument ::
  "collaborators \<Rightarrow> (PdfWriter \<Rightarrow> Document \<Rightarrow> (error + IndirectObject list \<times> int) \<times> PdfWriter)
     \<Rightarrow> PdfWriter \<Rightarrow> Document \<Rightarrow> error option \<times> PdfWriter" where
  "writeDocument env tree pw doc =
     (if closed pw then (Some ''writer is closed'', pw)
      else case Validate env doc of
        Some e \<Rightarrow> (Some (''document validation failed: '' @ e), pw)
      | None \<Rightarrow>
     (let pw = pw\<lparr>objects := [], offsets := fmempty, nextObjNum := 1\<rparr>
      in andThen (wrapErr ''failed to write header: '' (writeHeader pw (Version doc)))
       (\<lambda>pw. case tree pw doc of
          (Inl e, pw) \<Rightarrow> (Some (''failed to create page tree: '' @ e), pw)
        | (Inr (pagesObjs, pagesRootRef), pw) \<Rightarrow>
       (let pw = pw\<lparr>objects := objects pw @ pagesObjs\<rparr>
        in case createCatalog pw pagesRootRef doc of (catalogObj, pw) \<Rightarrow>
       (let pw = pw\<lparr>objects := catalogObj # objects pw\<rparr>
        in andThen (writeObjects (objects pw) pw)
       (\<lambda>pw. case writeXRef pw of
          (Inl e, pw) \<Rightarrow> (Some (''failed to write xref: '' @ e), pw)
        | (Inr xrefOffset, pw) \<Rightarrow>
       (let catalogRef = Number catalogObj;
            size' = nextObjNum pw
        in andThen (wrapErr ''failed to write trailer: '' (writeTrailer pw catalogRef size' xrefOffset doc))
       (\<lambda>pw. wrapErr ''failed to flush writer: '' (Flush pw)))))))))"

definition Write :: "collaborators \<Rightarrow> PdfWriter \<Rightarrow> Document \<Rightarrow> error option \<times> PdfWriter" where
  "Write env pw doc = writeDocument env (createPageTree env) pw doc"

definition WriteWithPageContent ::
  "collaborators \<Rightarrow> PdfWriter \<Rightarrow> Document \<Rightarrow> (int, TextOp list) fmap \<Rightarrow> error option \<times> PdfWriter" where
  "WriteWithPageContent env pw doc pageContents =
     writeDocument env (\<lambda>pw doc. createPageTreeWithContent env pw doc pageContents) pw doc"

definition WriteWithAllContent ::
  "collaborators \<Rightarrow> PdfWriter \<Rightarrow> Document \<Rightarrow> (int, TextOp list) fmap \<Rightarrow> (int, GraphicsOp list) fmap
     \<Rightarrow> error option \<times> PdfWriter" where
  "WriteWithAllContent env pw doc textContents graphicsContents =
     writeDocument env (\<lambda>pw doc. createPageTreeWithAllContent env pw doc textContents graphicsContents)
       pw doc"

definition Close :: "PdfWriter \<Rightarrow> error option \<times> PdfWriter" where
  "Close pw =
     (if closed pw then (None, pw)
      else (let pw = pw\<lparr>closed := True\<rparr>
            in case Flush pw of
                 (Some e, pw) \<Rightarrow>
                   (Some (''failed to flush buffer: '' @ e),
                    case file' pw of
                      Some f \<Rightarrow> pw\<lparr>file' := Some (snd (File_Close f))\<rparr>
                    | None \<Rightarrow> pw)
               | (None, pw) \<Rightarrow>
                   (case file' pw of
                      Some f \<Rightarrow>
                        (case File_Close f of
                           (Some e, f') \<Rightarrow> (Some (''failed to close file: '' @ e), pw\<lparr>file' := Some f'\<rparr>)
                         | (None, f') \<Rightarrow> (None, pw\<lparr>file' := Some f'\<rparr>))
                    | None \<Rightarrow> (None, pw))))"

text \<open>The bytes that have reached the sink.\<close>

definition sink_bytes :: "PdfWriter \<Rightarrow> bytes" where
  "sink_bytes pw =
     (case file' pw of
        Some f \<Rightarrow> contents f
      | None \<Rightarrow> (case countWriter pw of Some cw \<Rightarrow> received (cw_w cw) | None \<Rightarrow> []))"

section \<open>Relating the two sinks\<close>

text \<open>
  The writer on a file seen as a writer on a memory buffer: the buffer holds the file's
  contents, the counter its position. A file is well positioned when it is open and its
  position is its length, as it is after \<open>os.Create\<close> and after every write from there.
\<close>

definition as_mem :: "PdfWriter \<Rightarrow> PdfWriter" where
  "as_mem pw =
     (case file' pw of
        Some f \<Rightarrow>
          pw\<lparr>file' := None,
             countWriter := Some \<lparr>cw_w = \<lparr>received = contents f, MemWriter.fault = File.fault f\<rparr>,
                                  cw_n = position f\<rparr>\<rparr>
      | None \<Rightarrow> pw)"

definition well_positioned :: "PdfWriter \<Rightarrow> bool" where
  "well_positioned pw =
     (case file' pw of
        Some f \<Rightarrow> \<not> is_closed f \<and> position f = int (length (contents f))
      | None \<Rightarrow> True)"




section \<open>Page drawing calls (creator: polygon.go, ellipse.go, bezier.go)\<close>

text \<open>
  A \<open>float64\<close> coordinate is modelled by the real number it denotes. A pointer that may
  be \<open>nil\<close> is an \<open>option\<close>.
\<close>

record Point =
  X :: real
  Y :: real

record Color =
  R :: real
  G :: real
  B :: real

text \<open>Declared elsewhere in the package; only passed through here.\<close>

typedecl ColorCMYK
typedecl Gradient


record PolygonOptions =
  StrokeColor :: "Color option"
  StrokeColorCMYK :: "ColorCMYK option"
  StrokeWidth :: real
  FillColor :: "Color option"
  FillColorCMYK :: "ColorCMYK option"
  FillGradient :: "Gradient option"
  Dashed :: bool
  DashArray :: "real list"
  DashPhase :: real
  Opacity :: "real option"

record EllipseOptions =
  StrokeColor :: "Color option"
  StrokeColorCMYK :: "ColorCMYK option"
  StrokeWidth :: real
  FillColor :: "Color option"
  FillColorCMYK :: "ColorCMYK option"
  FillGradient :: "Gradient option"
  Opacity :: "real option"

record BezierSegment =
  Start :: Point
  C1 :: Point
  C2 :: Point
  End :: Point

record BezierOptions =
  Color :: Color
  ColorCMYK :: "ColorCMYK option"
  Width :: real
  Dashed :: bool
  DashArray :: "real list"
  DashPhase :: real
  Closed :: bool
  FillColor :: "Color option"
  FillGradient :: "Gradient option"
  Opacity :: "real option"

datatype GraphicsOpType =
  GraphicsOpNone | GraphicsOpPolygon | GraphicsOpEllipse | GraphicsOpBezier

text \<open>
  The fields of \<open>GraphicsOperation\<close> that the three drawing calls set. A composite
  literal leaves every field it does not name at its zero value (\<open>zeroOp\<close>).
\<close>

record GraphicsOperation =
  Type :: GraphicsOpType
  X :: real
  Y :: real
  RX :: real
  RY :: real
  Vertices :: "Point list"
  PolygonOpts :: "PolygonOptions option"
  EllipseOpts :: "EllipseOptions option"
  BezierSegs :: "BezierSegment list"
  BezierOpts :: "BezierOptions option"


text \<open>The page: its stored graphics operations, and whatever else it holds.\<close>

record Page =
  graphicsOps :: "GraphicsOperation list"











section \<open>Example inputs\<close>









text \<open>A 1 by 1 PNG image with an alpha mask, the operation that draws it, and a fresh writer.\<close>

definition ex_png :: ImageData where
  "ex_png = \<lparr>ImageData.Width = 1, ImageData.Height = 1, ImageData.ColorSpace = ''DeviceRGB'',
     ImageData.BitsPerComponent = 8, ImageData.Format = ''png'', ImageData.Data = ''abc'',
     ImageData.AlphaMask = ''m''\<rparr>"

definition ex_image_op :: GraphicsOp where
  "ex_image_op = \<lparr>GraphicsOp.Type = 3, GraphicsOp.Image = Some ex_png, GraphicsOp.Rest = []\<rparr>"

definition ex_mem_writer :: PdfWriter where
  "ex_mem_writer = NewPdfWriterFromWriter \<lparr>received = [], MemWriter.fault = None\<rparr>"

text \<open>
  Collaborators to run the writer with: a document is valid when it has a page, \<open>%.2f\<close>
  rounds to hundredths, \<open>range\<close> yields keys in ascending order, the content generators
  emit \<open>q Q\<close> and register nothing, there are no fonts and no annotations, a content
  stream object is framed uncompressed, and \<open>SetImageObjNum\<close> stores the number.
\<close>

definition ex_Sprintf_2f :: "real \<Rightarrow> string" where
  "ex_Sprintf_2f x =
     (let h = \<lfloor>\<bar>x\<bar> * 100 + 1 / 2\<rfloor>
      in (if x < 0 then ''-'' else []) @ fmt_d (h div 100) @ ''.'' @ fmt_0d 2 (h mod 100))"

definition ex_env :: collaborators where
  "ex_env =
     \<lparr>Validate = (\<lambda>doc. if Pages doc = [] then Some ''document must have at least one page'' else None),
      Sprintf_2f = ex_Sprintf_2f,
      map_range = (\<lambda>m. sorted_list_of_fset (fmdom m)),
      GenerateContentStream = (\<lambda>tops. Inr (''q Q'', NewResourceDictionary)),
      CreateFontObjects = (\<lambda>tops. Inr []),
      WriteFontObject = (\<lambda>fnt num. Inl ''no font''),
      CreateContentStreamObject = (\<lambda>num content compress.
         NewIndirectObject num 0
           (''<< /Length '' @ fmt_d (int (length content)) @ '' >>\<newline>stream\<newline>'' @ content
              @ ''\<newline>endstream'')),
      CreateFontCollectionWithGraphics = (\<lambda>tops gops. Inr \<lparr>Standard14 = [], Embedded = []\<rparr>),
      Subset_Build = (\<lambda>s. s),
      GenerateContentStreamWithGraphics = (\<lambda>fnts tops gops. Inr (''q Q'', NewResourceDictionary)),
      WriteFont = (\<lambda>fnt num. (Inl ''no font'', num)),
      WriteAllAnnotations = (\<lambda>pg num. (Inr ([], []), num)),
      SetImageObjNum = (\<lambda>rd name num. rd\<lparr>xobjects := fmupd name num (xobjects rd)\<rparr>)\<rparr>"

text \<open>
  A one-page document without metadata, the same document with a title, and a fresh
  writer on a file.
\<close>

definition ex_time :: Time where
  "ex_time = \<lparr>Year = 2025, Month = 1, Day = 27, Hour = 12, Minute = 30, Second = 45,
     ZoneOffset = 10800\<rparr>"

definition ex_doc_page :: document_Page where
  "ex_doc_page = \<lparr>MediaBox = \<lparr>llx = 0, lly = 0, urx = 612, ury = 792\<rparr>, CropBox = None,
     Rotation = 0, Annotations = []\<rparr>"

definition ex_doc :: Document where
  "ex_doc = \<lparr>Version = ''1.7'', Title = [], Author = [], Subject = [], Creator = [], Producer = [],
     CreationDate = ex_time, ModificationDate = ex_time, Pages = [ex_doc_page],
     CatalogAttributes = []\<rparr>"

definition ex_doc_titled :: Document where
  "ex_doc_titled = ex_doc\<lparr>Title := ''T''\<rparr>"

definition ex_file_writer :: PdfWriter where
  "ex_file_writer = (case NewPdfWriter (Inr (os_Create None)) of Inr pw \<Rightarrow> pw)"

text \<open>A writer with three bytes still in its buffer, on each sink, and a writer that has been
  closed.\<close>

definition ex_pending_writer :: PdfWriter where
  "ex_pending_writer = snd (WriteString ex_mem_writer ''abc'')"


definition ex_closed_writer :: PdfWriter where
  "ex_closed_writer = snd (Close ex_file_writer)"

text \<open>The file that \<open>Write\<close> produces for the titled document, on either sink.\<close>

definition ex_titled_output :: bytes where
  "ex_titled_output =
     ''%PDF-1.7\<newline>%'' @ [CHR 0xE2, CHR 0xE3, CHR 0xCF, CHR 0xD3] @ ''\<newline>''
     @ ''3 0 obj\<newline><< /Type /Catalog /Pages 1 0 R >>\<newline>endobj\<newline>''
     @ ''1 0 obj\<newline><< /Type /Pages /Kids [2 0 R] /Count 1 >>\<newline>endobj\<newline>''
     @ ''2 0 obj\<newline><< /Type /Page /Parent 1 0 R /MediaBox [0.00 0.00 612.00 792.00] /Resources << >> >>\<newline>endobj\<newline>''
     @ ''xref\<newline>0 4\<newline>''
     @ ''0000000000 65535 f \<newline>''
     @ ''0000000064 00000 n \<newline>''
     @ ''0000000121 00000 n \<newline>''
     @ ''0000000015 00000 n \<newline>''
     @ ''trailer\<newline><< /Size 4 /Root 3 0 R /Info 4 0 R >>\<newline>startxref\<newline>221\<newline>%%EOF\<newline>''"

text \<open>
  A text block operation, collaborators whose font collection fails, collaborators whose
  content generator fails, and an image step that fails after making an object.
\<close>

definition ex_text_block_op :: GraphicsOp where
  "ex_text_block_op = \<lparr>GraphicsOp.Type = 22, GraphicsOp.Image = None, GraphicsOp.Rest = []\<rparr>"

definition ex_env_no_fonts :: collaborators where
  "ex_env_no_fonts =
     ex_env\<lparr>CreateFontCollectionWithGraphics := (\<lambda>tops gops. Inl ''font collection failed'')\<rparr>"

definition ex_env_no_content :: collaborators where
  "ex_env_no_content =
     ex_env\<lparr>GenerateContentStreamWithGraphics := (\<lambda>fnts tops gops. Inl ''watermark text is empty'')\<rparr>"

definition ex_failing_image_step :: image_step where
  "ex_failing_image_step env pw gops resources =
     (([createImageXObject (nextObjNum pw) ex_png 0], Some ''image failed''),
      pw\<lparr>nextObjNum := nextObjNum pw + 1\<rparr>, resources)"

text \<open>
  A registry that holds one font, and the registry after a first request for the opacity
  NaN.
\<close>

definition ex_registry :: ResourceDictionary where
  "ex_registry = snd (AddFontWithID NewResourceDictionary 5 ''std:Helvetica'')"

definition ex_registry_after_NaN :: ResourceDictionary where
  "ex_registry_after_NaN = snd (snd (GetOrCreateExtGState NewResourceDictionary NaN))"






section \<open>Properties of the resource dictionary\<close>

lemma len_pos_iff: "len m > 0 \<longleftrightarrow> m \<noteq> fmempty"
proof -
  have "fcard (fmdom m) = 0 \<longleftrightarrow> fmdom m = {||}"
    by (simp add: fcard_0_eq)
  moreover have "fmdom m = {||} \<longleftrightarrow> m = fmempty"
    by (metis fmdom_empty fmrestrict_fset_dom fmrestrict_fset_null)
  ultimately have "fcard (fmdom m) = 0 \<longleftrightarrow> m = fmempty"
    by simp
  moreover have "0 < fcard (fmdom m) \<longleftrightarrow> fcard (fmdom m) \<noteq> 0"
    by arith
  ultimately show ?thesis
    by (simp add: len_def)
qed

lemma foldl_append_concat: "foldl (\<lambda>b x. b @ f x) buf xs = buf @ concat (map f xs)"
  by (induction xs arbitrary: buf) simp_all

lemma sort_range_keys:
  assumes "range_ok range_keys"
  shows "sort (range_keys m) = sorted_list_of_fset (fmdom m)"
proof -
  from assms have d: "distinct (range_keys m)" and s: "set (range_keys m) = fset (fmdom m)"
    by (simp_all add: range_ok_def)
  have "sort (range_keys m) = sorted_list_of_set (set (range_keys m))"
    using d by (simp add: sorted_list_of_set_sort_remdups distinct_remdups_id)
  then show ?thesis
    using s by (simp add: sorted_list_of_fset.rep_eq)
qed

lemma writeSortedResources_spec:
  assumes "range_ok range_keys"
  shows "writeSortedResources range_keys buf m =
         buf @ concat (map (resource_entry m) (sorted_list_of_fset (fmdom m)))"
  by (simp add: writeSortedResources_def foldl_append_concat sort_range_keys [OF assms])

lemma Bytes_eq_spec:
  assumes "range_ok range_keys"
  shows "Bytes range_keys rd = spec_toBytes rd"
  by (simp add: Bytes_def spec_toBytes_def spec_subdict_def HasResources_def len_pos_iff
      writeSortedResources_spec [OF assms])

lemma spec_toBytes_empty:
  "fonts rd = fmempty \<Longrightarrow> xobjects rd = fmempty \<Longrightarrow> extgstates rd = fmempty \<Longrightarrow>
   spec_toBytes rd = ''<< >>''"
  by (simp add: spec_toBytes_def spec_subdict_def)

section \<open>The font tables of a registry\<close>

lemma decimal_not_Nil: "decimal n \<noteq> []"
  by (subst decimal.simps) simp

lemma digit_inj:
  assumes "m < 10" and "n < 10" and "digit m = digit n"
  shows "m = n"
proof -
  from assms(3) have "(of_char (char_of (48 + m)) :: nat) = of_char (char_of (48 + n))"
    by (simp only: digit_def)
  then have "(48 + m) mod 256 = (48 + n) mod 256"
    by (simp only: of_char_of)
  moreover from assms(1) have "(48 + m) mod 256 = 48 + m"
    by (intro mod_less) arith
  moreover from assms(2) have "(48 + n) mod 256 = 48 + n"
    by (intro mod_less) arith
  ultimately show ?thesis
    by arith
qed

lemma decimal_inj: "decimal m = decimal n \<Longrightarrow> m = n"
proof (induction m arbitrary: n rule: decimal.induct)
  case (1 m)
  show ?case
  proof (cases "m < 10")
    case small: True
    show ?thesis
    proof (cases "n < 10")
      case True
      with small "1.prems" show ?thesis
        by (simp add: decimal.simps [of m] decimal.simps [of n] digit_inj)
    next
      case False
      with small "1.prems" decimal_not_Nil [of "n div 10"] show ?thesis
        by (simp add: decimal.simps [of m] decimal.simps [of n])
    qed
  next
    case big: False
    show ?thesis
    proof (cases "n < 10")
      case True
      with big "1.prems" decimal_not_Nil [of "m div 10"] show ?thesis
        by (simp add: decimal.simps [of m] decimal.simps [of n])
    next
      case False
      with big "1.prems" have d: "decimal (m div 10) = decimal (n div 10)"
        and l: "digit (m mod 10) = digit (n mod 10)"
        by (simp_all add: decimal.simps [of m] decimal.simps [of n])
      from "1.IH" [OF big d] have "m div 10 = n div 10" .
      moreover from l have "m mod 10 = n mod 10"
        by (simp add: digit_inj)
      ultimately show ?thesis
        by (metis div_mult_mod_eq)
    qed
  qed
qed

lemma font_name_inj: "font_name i = font_name j \<Longrightarrow> i = j"
  by (simp add: font_name_def fmt_d_def decimal_inj)

lemma fcard_font_names: "fcard (font_names n) = n"
proof -
  have "inj_on font_name {1..<Suc n}"
    by (rule inj_onI) (rule font_name_inj)
  then have "card (font_name ` {1..<Suc n}) = n"
    by (simp add: card_image)
  then show ?thesis
    by (simp add: font_names_def fcard.rep_eq fset_of_list.rep_eq del: upt_Suc)
qed

lemma font_names_Suc: "font_names (Suc n) = finsert (font_name (Suc n)) (font_names n)"
  by (simp add: font_names_def fset_of_list_append)

lemma next_font_name_fresh: "font_name (Suc n) |\<notin>| font_names n"
  by (auto simp: font_names_def fset_of_list.rep_eq dest: font_name_inj simp del: upt_Suc)

text \<open>The next name that \<open>AddFont\<close> and \<open>AddFontWithID\<close> give is not in use.\<close>

lemma registry_ok_next:
  assumes "registry_ok rd"
  shows "''F'' @ fmt_d (len (fonts rd) + 1) = font_name (Suc (nat (len (fonts rd))))"
    and "''F'' @ fmt_d (len (fonts rd) + 1) |\<notin>| fmdom (fonts rd)"
    and "len (fmupd (''F'' @ fmt_d (len (fonts rd) + 1)) objNum (fonts rd)) = len (fonts rd) + 1"
proof -
  show 1: "''F'' @ fmt_d (len (fonts rd) + 1) = font_name (Suc (nat (len (fonts rd))))"
    by (simp add: font_name_def len_def add.commute)
  from assms have dom: "fmdom (fonts rd) = font_names (nat (len (fonts rd)))"
    by (simp add: registry_ok_def)
  show 2: "''F'' @ fmt_d (len (fonts rd) + 1) |\<notin>| fmdom (fonts rd)"
    unfolding 1 by (subst dom) (rule next_font_name_fresh)
  then show "len (fmupd (''F'' @ fmt_d (len (fonts rd) + 1)) objNum (fonts rd)) = len (fonts rd) + 1"
    by (simp add: len_def fcard_finsert_disjoint)
qed

lemma registry_ok_fonts_grow:
  assumes "registry_ok rd"
  shows "fmdom (fmupd (''F'' @ fmt_d (len (fonts rd) + 1)) objNum (fonts rd))
     = font_names (nat (len (fmupd (''F'' @ fmt_d (len (fonts rd) + 1)) objNum (fonts rd))))"
proof -
  from assms have dom: "fmdom (fonts rd) = font_names (nat (len (fonts rd)))"
    by (simp add: registry_ok_def)
  have n: "nat (len (fonts rd) + 1) = Suc (nat (len (fonts rd)))"
    by (simp add: len_def)
  have "fmdom (fmupd (''F'' @ fmt_d (len (fonts rd) + 1)) objNum (fonts rd))
      = finsert (font_name (Suc (nat (len (fonts rd))))) (font_names (nat (len (fonts rd))))"
    unfolding registry_ok_next(1) [OF assms] by (simp add: dom [symmetric])
  then show ?thesis
    unfolding registry_ok_next(3) [OF assms] n font_names_Suc .
qed

lemma registry_okI:
  assumes "fmdom (fonts rd) = font_names (nat (len (fonts rd)))"
    and "\<And>fontID name. fmlookup (fontIDs rd) fontID = Some name \<Longrightarrow> name |\<in>| fmdom (fonts rd)"
  shows "registry_ok rd"
  unfolding registry_ok_def using assms by (auto intro: fmpredI)

lemma registry_ok_bound:
  assumes "registry_ok rd" and "fmlookup (fontIDs rd) fontID = Some name"
  shows "name |\<in>| fmdom (fonts rd)"
  using assms unfolding registry_ok_def by (auto dest: fmpredD)

lemma registry_ok_New: "registry_ok NewResourceDictionary"
  by (rule registry_okI) (simp_all add: NewResourceDictionary_def len_def font_names_def fcard_fempty)

lemma registry_ok_AddFont:
  assumes "registry_ok rd"
  shows "registry_ok (snd (AddFont rd objNum))"
proof (rule registry_okI)
  show "fmdom (fonts (snd (AddFont rd objNum)))
      = font_names (nat (len (fonts (snd (AddFont rd objNum)))))"
    using registry_ok_fonts_grow [OF assms, of objNum] by (simp add: AddFont_def Let_def)
next
  fix fontID name
  assume "fmlookup (fontIDs (snd (AddFont rd objNum))) fontID = Some name"
  then have "name |\<in>| fmdom (fonts rd)"
    using registry_ok_bound [OF assms] by (simp add: AddFont_def Let_def)
  then show "name |\<in>| fmdom (fonts (snd (AddFont rd objNum)))"
    by (simp add: AddFont_def Let_def)
qed

lemma registry_ok_AddFontWithID:
  assumes "registry_ok rd"
  shows "registry_ok (snd (AddFontWithID rd objNum fontID))"
proof (cases "fmlookup (fontIDs rd) fontID")
  case (Some existingName)
  with assms show ?thesis
    by (simp add: AddFontWithID_def)
next
  case None
  let ?name = "''F'' @ fmt_d (len (fonts rd) + 1)"
  have rd': "snd (AddFontWithID rd objNum fontID)
      = rd\<lparr>fonts := fmupd ?name objNum (fonts rd), fontIDs := fmupd fontID ?name (fontIDs rd)\<rparr>"
    using None by (simp add: AddFontWithID_def Let_def)
  show ?thesis
    unfolding rd'
  proof (rule registry_okI)
    show "fmdom (fonts (rd\<lparr>fonts := fmupd ?name objNum (fonts rd),
                             fontIDs := fmupd fontID ?name (fontIDs rd)\<rparr>))
        = font_names (nat (len (fonts (rd\<lparr>fonts := fmupd ?name objNum (fonts rd),
                             fontIDs := fmupd fontID ?name (fontIDs rd)\<rparr>))))"
      using registry_ok_fonts_grow [OF assms, of objNum] by simp
  next
    fix fid name
    assume "fmlookup (fontIDs (rd\<lparr>fonts := fmupd ?name objNum (fonts rd),
                             fontIDs := fmupd fontID ?name (fontIDs rd)\<rparr>)) fid = Some name"
    then have "name = ?name \<or> name |\<in>| fmdom (fonts rd)"
      using registry_ok_bound [OF assms] by (auto split: if_splits)
    then show "name |\<in>| fmdom (fonts (rd\<lparr>fonts := fmupd ?name objNum (fonts rd),
                             fontIDs := fmupd fontID ?name (fontIDs rd)\<rparr>))"
      by auto
  qed
qed

lemma registry_ok_SetFontObjNumByID:
  assumes "registry_ok rd"
  shows "registry_ok (snd (SetFontObjNumByID rd fontID objNum))"
proof (cases "fmlookup (fontIDs rd) fontID")
  case None
  with assms show ?thesis
    by (simp add: SetFontObjNumByID_def)
next
  case (Some resName)
  from registry_ok_bound [OF assms Some] have "finsert resName (fmdom (fonts rd)) = fmdom (fonts rd)"
    by auto
  then have same: "fmdom (fmupd resName objNum (fonts rd)) = fmdom (fonts rd)"
    by simp
  have rd': "snd (SetFontObjNumByID rd fontID objNum) = rd\<lparr>fonts := fmupd resName objNum (fonts rd)\<rparr>"
    using Some by (simp add: SetFontObjNumByID_def)
  from assms have dom: "fmdom (fonts rd) = font_names (nat (len (fonts rd)))"
    by (simp add: registry_ok_def)
  show ?thesis
    unfolding rd'
  proof (rule registry_okI)
    show "fmdom (fonts (rd\<lparr>fonts := fmupd resName objNum (fonts rd)\<rparr>))
        = font_names (nat (len (fonts (rd\<lparr>fonts := fmupd resName objNum (fonts rd)\<rparr>))))"
      using dom same by (simp add: len_def)
  next
    fix fid name
    assume "fmlookup (fontIDs (rd\<lparr>fonts := fmupd resName objNum (fonts rd)\<rparr>)) fid = Some name"
    then have "name |\<in>| fmdom (fonts rd)"
      using registry_ok_bound [OF assms] by simp
    then show "name |\<in>| fmdom (fonts (rd\<lparr>fonts := fmupd resName objNum (fonts rd)\<rparr>))"
      by simp
  qed
qed

lemma registry_ok_same_fonts:
  assumes "registry_ok rd" and "fonts rd' = fonts rd" and "fontIDs rd' = fontIDs rd"
  shows "registry_ok rd'"
  using assms unfolding registry_ok_def by metis

lemma registry_ok_others:
  assumes "registry_ok rd"
  shows "registry_ok (snd (AddImage rd objNum))"
    and "registry_ok (snd (AddExtGState rd objNum))"
    and "registry_ok (snd (snd (GetOrCreateExtGState rd opacity)))"
    and "registry_ok (snd (SetExtGStateObjNum rd name objNum))"
  by (rule registry_ok_same_fonts [OF assms];
      simp add: AddImage_def AddExtGState_def GetOrCreateExtGState_def SetExtGStateObjNum_def
        Let_def split: option.splits)+

section \<open>The opacity cache\<close>

lemma float64_map_lookup_store:
  "k \<noteq> NaN \<Longrightarrow> float64_map_lookup (float64_map_store m k v) k = Some v"
  by (induction m) (auto simp: float64_eq_def)

lemma float64_map_lookup_NaN: "float64_map_lookup m NaN = None"
  by (induction m) (auto simp: float64_eq_def)

text \<open>
  Claim C5, as amended. On every dictionary that \<open>NewResourceDictionary\<close> and the
  methods can build (\<open>registry_ok\<close>, which they establish and keep), registering the same
  font ID twice through \<open>AddFontWithID\<close> returns the same resource name both times and
  the second call changes nothing. Afterwards the ID is bound to that name, the name is an
  entry of the font table, and the two calls have added that entry and no other: none when
  the ID was bound before, and otherwise exactly one, under a name not in use before,
  holding the first call's object number. For every opacity other than NaN, a second
  \<open>GetOrCreateExtGState\<close> with the same opacity returns the first call's name with
  \<open>needsCreation = false\<close> and changes nothing; the first call creates exactly when the
  opacity was not cached, and the cache then holds the name under the opacity.
\<close>

theorem AddFontWithID_GetOrCreateExtGState_idempotent:
  assumes "registry_ok rd" and "opacity \<noteq> NaN"
  shows "(case AddFontWithID rd objNum fontID of (name1, rd1) \<Rightarrow>
          case AddFontWithID rd1 objNum' fontID of (name2, rd2) \<Rightarrow>
            name2 = name1 \<and> rd2 = rd1
            \<and> fmlookup (fontIDs rd2) fontID = Some name1
            \<and> name1 |\<in>| fmdom (fonts rd2)
            \<and> fmdom (fonts rd2) = finsert name1 (fmdom (fonts rd))
            \<and> (case fmlookup (fontIDs rd) fontID of
                  Some existingName \<Rightarrow> name1 = existingName \<and> rd2 = rd
                | None \<Rightarrow>
                    name1 |\<notin>| fmdom (fonts rd) \<and> len (fonts rd2) = len (fonts rd) + 1
                    \<and> fmlookup (fonts rd2) name1 = Some objNum)
            \<and> registry_ok rd2)
     \<and> (case GetOrCreateExtGState rd opacity of (gs1, new1, rd1) \<Rightarrow>
          case GetOrCreateExtGState rd1 opacity of (gs2, new2, rd2) \<Rightarrow>
            gs2 = gs1 \<and> new2 = False \<and> rd2 = rd1
            \<and> new1 = (float64_map_lookup (extgstateCache rd) opacity = None)
            \<and> float64_map_lookup (extgstateCache rd2) opacity = Some gs1)"
proof (intro conjI)
  show "case AddFontWithID rd objNum fontID of (name1, rd1) \<Rightarrow>
          case AddFontWithID rd1 objNum' fontID of (name2, rd2) \<Rightarrow>
            name2 = name1 \<and> rd2 = rd1
            \<and> fmlookup (fontIDs rd2) fontID = Some name1
            \<and> name1 |\<in>| fmdom (fonts rd2)
            \<and> fmdom (fonts rd2) = finsert name1 (fmdom (fonts rd))
            \<and> (case fmlookup (fontIDs rd) fontID of
                  Some existingName \<Rightarrow> name1 = existingName \<and> rd2 = rd
                | None \<Rightarrow>
                    name1 |\<notin>| fmdom (fonts rd) \<and> len (fonts rd2) = len (fonts rd) + 1
                    \<and> fmlookup (fonts rd2) name1 = Some objNum)
            \<and> registry_ok rd2"
  proof (cases "fmlookup (fontIDs rd) fontID")
    case (Some existingName)
    from registry_ok_bound [OF assms(1) Some]
    have "finsert existingName (fmdom (fonts rd)) = fmdom (fonts rd)"
      by auto
    with Some assms(1) registry_ok_bound [OF assms(1) Some] show ?thesis
      by (simp add: AddFontWithID_def)
  next
    case None
    define name where "name = ''F'' @ fmt_d (len (fonts rd) + 1)"
    define rd1 where "rd1 = rd\<lparr>fonts := fmupd name objNum (fonts rd),
                    fontIDs := fmupd fontID name (fontIDs rd)\<rparr>"
    have first: "AddFontWithID rd objNum fontID = (name, rd1)"
      using None by (simp add: AddFontWithID_def Let_def name_def rd1_def)
    have second: "AddFontWithID rd1 objNum' fontID = (name, rd1)"
      by (simp add: AddFontWithID_def rd1_def)
    have ok: "registry_ok rd1"
      using registry_ok_AddFontWithID [OF assms(1), of objNum fontID] first by simp
    have fresh: "name |\<notin>| fmdom (fonts rd)"
      and grown: "len (fonts rd1) = len (fonts rd) + 1"
      using registry_ok_next(2) [OF assms(1)] registry_ok_next(3) [OF assms(1), of objNum]
      by (simp_all add: name_def rd1_def)
    have "fmlookup (fontIDs rd1) fontID = Some name" and "name |\<in>| fmdom (fonts rd1)"
      and "fmdom (fonts rd1) = finsert name (fmdom (fonts rd))"
      and "fmlookup (fonts rd1) name = Some objNum"
      by (simp_all add: rd1_def)
    with None ok fresh grown show ?thesis
      by (simp add: first second)
  qed
next
  show "case GetOrCreateExtGState rd opacity of (gs1, new1, rd1) \<Rightarrow>
          case GetOrCreateExtGState rd1 opacity of (gs2, new2, rd2) \<Rightarrow>
            gs2 = gs1 \<and> new2 = False \<and> rd2 = rd1
            \<and> new1 = (float64_map_lookup (extgstateCache rd) opacity = None)
            \<and> float64_map_lookup (extgstateCache rd2) opacity = Some gs1"
    using assms(2)
    by (cases "float64_map_lookup (extgstateCache rd) opacity")
      (simp_all add: GetOrCreateExtGState_def Let_def float64_map_lookup_store)
qed

theorem AddFontWithID_GetOrCreateExtGState_idempotent_witness:
  "registry_ok ex_registry \<and> Finite (1 / 2) \<noteq> NaN
   \<and> fst (AddFontWithID ex_registry 7 ''std:Courier'') = ''F2''
   \<and> fst (AddFontWithID (snd (AddFontWithID ex_registry 7 ''std:Courier'')) 8 ''std:Courier'') = ''F2''
   \<and> fonts (snd (AddFontWithID (snd (AddFontWithID ex_registry 7 ''std:Courier'')) 8 ''std:Courier''))
       = fmupd ''F2'' 7 (fmupd ''F1'' 5 fmempty)
   \<and> fst (AddFontWithID ex_registry 9 ''std:Helvetica'') = ''F1''
   \<and> fonts (snd (AddFontWithID ex_registry 9 ''std:Helvetica'')) = fmupd ''F1'' 5 fmempty
   \<and> fst (GetOrCreateExtGState ex_registry (Finite (1 / 2))) = ''GS1''
   \<and> fst (snd (GetOrCreateExtGState ex_registry (Finite (1 / 2)))) = True
   \<and> fst (GetOrCreateExtGState (snd (snd (GetOrCreateExtGState ex_registry (Finite (1 / 2)))))
          (Finite (1 / 2))) = ''GS1''
   \<and> fst (snd (GetOrCreateExtGState (snd (snd (GetOrCreateExtGState ex_registry (Finite (1 / 2)))))
          (Finite (1 / 2)))) = False"
proof -
  have ok: "registry_ok ex_registry"
    unfolding ex_registry_def by (rule registry_ok_AddFontWithID [OF registry_ok_New])
  have names: "fmt_d 1 = ''1''" "fmt_d 2 = ''2''"
    by code_simp+
  have l: "len (fmempty :: (string, int) fmap) = 0"
    "len (fmupd ''F1'' 5 (fmempty :: (string, int) fmap)) = 1"
    by (simp_all add: len_def fcard.rep_eq)
  have rd: "ex_registry = NewResourceDictionary\<lparr>fonts := fmupd ''F1'' 5 fmempty,
      fontIDs := fmupd ''std:Helvetica'' ''F1'' fmempty\<rparr>"
    by (simp add: ex_registry_def AddFontWithID_def NewResourceDictionary_def l names Let_def)
  from AddFontWithID_GetOrCreateExtGState_idempotent
    [where rd = ex_registry and opacity = "Finite (1 / 2)" and objNum = 7
       and fontID = "''std:Courier''" and objNum' = 8]
  show ?thesis
    using ok
    by (simp add: rd AddFontWithID_def GetOrCreateExtGState_def NewResourceDictionary_def l names
        Let_def float64_eq_def split: prod.splits)
qed

text \<open>
  The claim as it stands fails at the opacity NaN, which no key of a Go map equals: on a
  new dictionary the first call returns \<open>GS1\<close>, and the second call with the same opacity
  returns another name, \<open>GS2\<close>, with \<open>needsCreation = true\<close>.
\<close>

theorem GetOrCreateExtGState_NaN_never_cached:
  "registry_ok NewResourceDictionary
   \<and> GetOrCreateExtGState NewResourceDictionary NaN = (''GS1'', True, ex_registry_after_NaN)
   \<and> fst (GetOrCreateExtGState ex_registry_after_NaN NaN) = ''GS2''
   \<and> fst (snd (GetOrCreateExtGState ex_registry_after_NaN NaN)) = True"
proof -
  have names: "fmt_d 1 = ''1''" "fmt_d 2 = ''2''"
    by code_simp+
  have l: "len (fmempty :: (string, int) fmap) = 0"
    "len (fmupd ''GS1'' 0 (fmempty :: (string, int) fmap)) = 1"
    by (simp_all add: len_def fcard.rep_eq)
  have 1: "GetOrCreateExtGState NewResourceDictionary NaN
      = (''GS1'', True,
         NewResourceDictionary\<lparr>extgstateCache := [(NaN, ''GS1'')],
           extgstates := fmupd ''GS1'' 0 fmempty, extgstateObjMap := fmupd ''GS1'' 0 fmempty\<rparr>)"
    by (simp add: GetOrCreateExtGState_def NewResourceDictionary_def l names Let_def)
  show ?thesis
    by (simp add: registry_ok_New ex_registry_after_NaN_def 1)
      (simp add: GetOrCreateExtGState_def NewResourceDictionary_def float64_map_lookup_NaN l names
        Let_def)
qed

section \<open>The serialization of the resource dictionary\<close>

text \<open>
  Claim C6. Whatever order \<open>range\<close> yields the keys in, \<open>Bytes\<close> is the serialization
  the specification describes: each non-empty namespace as a sub-dictionary whose entries
  follow the ascending (bytewise lexicographic) order of the resource names, no
  sub-dictionary for an empty namespace, \<open>/ProcSet\<close> exactly when some namespace is
  non-empty, and \<open><< >>\<close> for the empty registry. The output therefore depends on the
  contents of the maps only, not on the order of insertion or of iteration.
\<close>

theorem Bytes_sorted_by_name:
  assumes "range_ok range_keys"
  shows "Bytes range_keys rd = spec_toBytes rd
    \<and> (fonts rd = fmempty \<and> xobjects rd = fmempty \<and> extgstates rd = fmempty
         \<longrightarrow> Bytes range_keys rd = ''<< >>'')
    \<and> (\<exists>names. sorted names \<and> distinct names \<and> set names = fset (fmdom m)
         \<and> writeSortedResources range_keys buf m = buf @ concat (map (resource_entry m) names))
    \<and> (range_ok range_keys' \<longrightarrow> Bytes range_keys' rd = Bytes range_keys rd)
    \<and> (a \<noteq> b \<longrightarrow>
          Bytes range_keys (rd\<lparr>fonts := fmupd a x (fmupd b y (fonts rd))\<rparr>)
          = Bytes range_keys (rd\<lparr>fonts := fmupd b y (fmupd a x (fonts rd))\<rparr>))"
proof -
  have 1: "Bytes range_keys rd = spec_toBytes rd"
    by (rule Bytes_eq_spec [OF assms])
  have 2: "fonts rd = fmempty \<and> xobjects rd = fmempty \<and> extgstates rd = fmempty
         \<longrightarrow> Bytes range_keys rd = ''<< >>''"
    by (simp add: 1 spec_toBytes_empty)
  have "sorted (sorted_list_of_fset (fmdom m)) \<and> distinct (sorted_list_of_fset (fmdom m))
        \<and> set (sorted_list_of_fset (fmdom m)) = fset (fmdom m)"
    by (simp add: sorted_list_of_fset.rep_eq)
  then have 3: "\<exists>names. sorted names \<and> distinct names \<and> set names = fset (fmdom m)
         \<and> writeSortedResources range_keys buf m = buf @ concat (map (resource_entry m) names)"
    using writeSortedResources_spec [OF assms, of buf m] by blast
  have 4: "range_ok range_keys' \<longrightarrow> Bytes range_keys' rd = Bytes range_keys rd"
    by (simp add: 1 Bytes_eq_spec)
  have 5: "a \<noteq> b \<longrightarrow>
          Bytes range_keys (rd\<lparr>fonts := fmupd a x (fmupd b y (fonts rd))\<rparr>)
          = Bytes range_keys (rd\<lparr>fonts := fmupd b y (fmupd a x (fonts rd))\<rparr>)"
    by (simp add: fmupd_reorder_neq)
  from 1 2 3 4 5 show ?thesis by blast
qed

theorem Bytes_sorted_by_name_witness:
  "range_ok (\<lambda>m. rev (sorted_list_of_fset (fmdom m)))
   \<and> range_ok (\<lambda>m. sorted_list_of_fset (fmdom m))
   \<and> Bytes (\<lambda>m. sorted_list_of_fset (fmdom m)) NewResourceDictionary = ''<< >>''
   \<and> Bytes (\<lambda>m. rev (sorted_list_of_fset (fmdom m)))
        (NewResourceDictionary\<lparr>fonts := fmupd ''F2'' 7 (fmupd ''F10'' 9 (fmupd ''F1'' 5 fmempty)),
           extgstates := fmupd ''GS1'' 0 fmempty\<rparr>)
      = ''<< /Font << /F1 5 0 R /F10 9 0 R /F2 7 0 R >> /ExtGState << /GS1 0 0 R >> /ProcSet [/PDF /Text /ImageB /ImageC /ImageI] >>''
   \<and> Bytes (\<lambda>m. sorted_list_of_fset (fmdom m))
        (NewResourceDictionary\<lparr>fonts := fmupd ''F2'' 7 (fmupd ''F10'' 9 (fmupd ''F1'' 5 fmempty)),
           extgstates := fmupd ''GS1'' 0 fmempty\<rparr>)
      = ''<< /Font << /F1 5 0 R /F10 9 0 R /F2 7 0 R >> /ExtGState << /GS1 0 0 R >> /ProcSet [/PDF /Text /ImageB /ImageC /ImageI] >>''
   \<and> Bytes (\<lambda>m. sorted_list_of_fset (fmdom m))
        (NewResourceDictionary\<lparr>fonts := fmupd ''F2'' 7 (fmupd ''F1'' 5 fmempty)\<rparr>)
      = Bytes (\<lambda>m. sorted_list_of_fset (fmdom m))
        (NewResourceDictionary\<lparr>fonts := fmupd ''F1'' 5 (fmupd ''F2'' 7 fmempty)\<rparr>)"
proof -
  let ?up = "\<lambda>m::(string, int) fmap. sorted_list_of_fset (fmdom m)"
  let ?down = "\<lambda>m::(string, int) fmap. rev (sorted_list_of_fset (fmdom m))"
  let ?rd = "NewResourceDictionary\<lparr>fonts := fmupd ''F2'' 7 (fmupd ''F10'' 9 (fmupd ''F1'' 5 fmempty)),
           extgstates := fmupd ''GS1'' 0 fmempty\<rparr>"
  have up: "range_ok ?up"
    by (simp add: range_ok_def sorted_list_of_fset.rep_eq)
  have down: "range_ok ?down"
    by (simp add: range_ok_def sorted_list_of_fset.rep_eq)
  have empty: "fonts NewResourceDictionary = fmempty \<and> xobjects NewResourceDictionary = fmempty
     \<and> extgstates NewResourceDictionary = fmempty"
    by (simp add: NewResourceDictionary_def)
  have ne: "''F2'' \<noteq> ''F1''"
    by simp
  have val: "Bytes ?down ?rd = ''<< /Font << /F1 5 0 R /F10 9 0 R /F2 7 0 R >> /ExtGState << /GS1 0 0 R >> /ProcSet [/PDF /Text /ImageB /ImageC /ImageI] >>''"
    by code_simp
  from Bytes_sorted_by_name [OF up, of NewResourceDictionary] empty
  have e: "Bytes ?up NewResourceDictionary = ''<< >>''"
    by blast
  from Bytes_sorted_by_name [OF down, of ?rd _ _ ?up] up val
  have o: "Bytes ?up ?rd = ''<< /Font << /F1 5 0 R /F10 9 0 R /F2 7 0 R >> /ExtGState << /GS1 0 0 R >> /ProcSet [/PDF /Text /ImageB /ImageC /ImageI] >>''"
    by simp
  from Bytes_sorted_by_name [OF up, of "NewResourceDictionary\<lparr>fonts := fmempty\<rparr>" _ _ _ "''F2''" "''F1''" 7 5] ne
  have s: "Bytes ?up (NewResourceDictionary\<lparr>fonts := fmupd ''F2'' 7 (fmupd ''F1'' 5 fmempty)\<rparr>)
      = Bytes ?up (NewResourceDictionary\<lparr>fonts := fmupd ''F1'' 5 (fmupd ''F2'' 7 fmempty)\<rparr>)"
    by simp
  from up down e val o s show ?thesis by blast
qed

section \<open>Properties of the image XObjects\<close>











section \<open>Properties of the drawing calls\<close>











section \<open>Properties of the writer's life cycle\<close>

lemma writeDocument_closed:
  "closed pw \<Longrightarrow> writeDocument env tree pw doc = (Some ''writer is closed'', pw)"
  by (simp add: writeDocument_def)

lemma closed_Flush: "closed (snd (Flush pw)) = closed pw"
  by (auto simp: Flush_def underlying_Write_def split: option.splits prod.splits)

lemma closed_Close: "closed (snd (Close pw))"
proof (cases "closed pw")
  case True
  then show ?thesis by (simp add: Close_def)
next
  case False
  have "closed (snd (Flush (pw\<lparr>closed := True\<rparr>)))"
    by (simp add: closed_Flush)
  then show ?thesis
    using False by (auto simp: Close_def Let_def split: option.splits prod.splits)
qed

lemma file_Flush_closed:
  "file' (snd (Flush pw)) = Some f \<Longrightarrow> \<exists>g. file' pw = Some g \<and> is_closed f = is_closed g"
  by (auto simp: Flush_def underlying_Write_def File_Write_def Let_def
      split: option.splits prod.splits if_splits)

lemma Close_releases_file:
  assumes "\<not> closed pw" and "file' (snd (Close pw)) = Some f"
  shows "is_closed f"
proof -
  obtain e pw1 where fl: "Flush (pw\<lparr>closed := True\<rparr>) = (e, pw1)"
    by (cases "Flush (pw\<lparr>closed := True\<rparr>)")
  show ?thesis
    using assms fl
    by (auto simp: Close_def Let_def File_Close_def split: option.splits prod.splits if_splits)
qed

lemma Close_flushes:
  assumes "\<not> closed pw" and "Close pw = (None, pw')"
  shows "Flush (pw\<lparr>closed := True\<rparr>) = (None, pw'\<lparr>file' := file' (snd (Flush (pw\<lparr>closed := True\<rparr>)))\<rparr>)
     \<and> bw_buf (writer pw') = []"
proof -
  obtain e pw1 where fl: "Flush (pw\<lparr>closed := True\<rparr>) = (e, pw1)"
    by (cases "Flush (pw\<lparr>closed := True\<rparr>)")
  have buf: "bw_buf (writer pw1) = []" if "e = None"
    using fl that
    by (auto simp: Flush_def underlying_Write_def split: option.splits prod.splits if_splits)
  show ?thesis
    using assms fl buf
    by (auto simp: Close_def Let_def split: option.splits prod.splits if_splits)
qed

lemma Close_first:
  assumes "\<not> closed pw"
  shows "snd (Close pw) =
     (let pw1 = snd (Flush (pw\<lparr>closed := True\<rparr>))
      in pw1\<lparr>file' := map_option (\<lambda>f. snd (File_Close f)) (file' pw1)\<rparr>)"
proof -
  obtain e pw1 where fl: "Flush (pw\<lparr>closed := True\<rparr>) = (e, pw1)"
    by (cases "Flush (pw\<lparr>closed := True\<rparr>)")
  have none: "file' pw1 = None \<Longrightarrow> pw1\<lparr>file' := None\<rparr> = pw1"
    by (cases pw1) simp
  show ?thesis
    using assms fl none
    by (auto simp: Close_def Let_def split: option.splits prod.splits)
qed

lemma Flush_mem_writer:
  assumes "file' pw = None" and "countWriter pw = Some cw" and "MemWriter.fault (cw_w cw) = None"
    and "bw_err (writer pw) = None"
  shows "fst (Flush pw) = None \<and> sink_bytes (snd (Flush pw)) = sink_bytes pw @ bw_buf (writer pw)
     \<and> bw_buf (writer (snd (Flush pw))) = []"
  using assms
  by (simp add: Flush_def underlying_Write_def countingWriter_Write_def MemWriter_Write_def
      sink_bytes_def)

text \<open>
  Claim C7. \<open>Close\<close> leaves the writer closed. On a writer that is not yet closed it is a
  flush of the buffer followed by closing the file, if there is one, so that the buffered
  bytes have reached a healthy sink and the file is released. On a closed writer it returns
  nil and changes nothing, so every later \<open>Close\<close> is a no-op. On a closed writer \<open>Write\<close>,
  \<open>WriteWithPageContent\<close> and \<open>WriteWithAllContent\<close> return the error
  \<open>writer is closed\<close> and the writer as it was: object list, offset table, allocator,
  buffer and sink are all untouched.
\<close>

theorem Close_idempotent_Write_after_Close_fails:
  "closed (snd (Close pw))
   \<and> Close (snd (Close pw)) = (None, snd (Close pw))
   \<and> (closed pw \<longrightarrow> Close pw = (None, pw))
   \<and> (\<not> closed pw \<longrightarrow>
        snd (Close pw) =
          (let pw1 = snd (Flush (pw\<lparr>closed := True\<rparr>))
           in pw1\<lparr>file' := map_option (\<lambda>f. snd (File_Close f)) (file' pw1)\<rparr>)
        \<and> (\<forall>f. file' (snd (Close pw)) = Some f \<longrightarrow> is_closed f)
        \<and> (fst (Close pw) = None \<longrightarrow> bw_buf (writer (snd (Close pw))) = []))
   \<and> (\<not> closed pw \<and> file' pw = None \<and> countWriter pw = Some cw
        \<and> MemWriter.fault (cw_w cw) = None \<and> bw_err (writer pw) = None \<longrightarrow>
        fst (Close pw) = None \<and> sink_bytes (snd (Close pw)) = sink_bytes pw @ bw_buf (writer pw))
   \<and> (closed pw \<longrightarrow>
        Write env pw doc = (Some ''writer is closed'', pw)
        \<and> WriteWithPageContent env pw doc pageContents = (Some ''writer is closed'', pw)
        \<and> WriteWithAllContent env pw doc textContents graphicsContents = (Some ''writer is closed'', pw))
   \<and> Write env (snd (Close pw)) doc = (Some ''writer is closed'', snd (Close pw))"
proof -
  have c: "closed (snd (Close pw))"
    by (rule closed_Close)
  have again: "Close (snd (Close pw)) = (None, snd (Close pw))"
    using c by (simp add: Close_def)
  have noop: "closed pw \<longrightarrow> Close pw = (None, pw)"
    by (simp add: Close_def)
  have first: "\<not> closed pw \<longrightarrow>
        snd (Close pw) =
          (let pw1 = snd (Flush (pw\<lparr>closed := True\<rparr>))
           in pw1\<lparr>file' := map_option (\<lambda>f. snd (File_Close f)) (file' pw1)\<rparr>)
        \<and> (\<forall>f. file' (snd (Close pw)) = Some f \<longrightarrow> is_closed f)
        \<and> (fst (Close pw) = None \<longrightarrow> bw_buf (writer (snd (Close pw))) = [])"
    using Close_first [of pw] Close_releases_file [of pw] Close_flushes [of pw "snd (Close pw)"]
    by (metis prod.collapse)
  have mem: "\<not> closed pw \<and> file' pw = None \<and> countWriter pw = Some cw
        \<and> MemWriter.fault (cw_w cw) = None \<and> bw_err (writer pw) = None \<longrightarrow>
        fst (Close pw) = None \<and> sink_bytes (snd (Close pw)) = sink_bytes pw @ bw_buf (writer pw)"
  proof (intro impI, elim conjE)
    assume a: "\<not> closed pw" "file' pw = None" "countWriter pw = Some cw"
      "MemWriter.fault (cw_w cw) = None" "bw_err (writer pw) = None"
    let ?pw = "pw\<lparr>closed := True\<rparr>"
    from a have f: "fst (Flush ?pw) = None \<and> sink_bytes (snd (Flush ?pw)) = sink_bytes ?pw @ bw_buf (writer ?pw)"
      using Flush_mem_writer [of ?pw cw] by simp
    have nofile: "file' (snd (Flush ?pw)) = None"
      using a by (auto simp: Flush_def underlying_Write_def split: option.splits prod.splits)
    obtain pw1 where fl: "Flush ?pw = (None, pw1)"
      using f by (metis prod.collapse)
    show "fst (Close pw) = None \<and> sink_bytes (snd (Close pw)) = sink_bytes pw @ bw_buf (writer pw)"
      using a f nofile fl by (simp add: Close_def Let_def sink_bytes_def)
  qed
  have wr: "closed pw \<longrightarrow>
        Write env pw doc = (Some ''writer is closed'', pw)
        \<and> WriteWithPageContent env pw doc pageContents = (Some ''writer is closed'', pw)
        \<and> WriteWithAllContent env pw doc textContents graphicsContents = (Some ''writer is closed'', pw)"
    by (simp add: Write_def WriteWithPageContent_def WriteWithAllContent_def writeDocument_closed)
  have after: "Write env (snd (Close pw)) doc = (Some ''writer is closed'', snd (Close pw))"
    using c by (simp add: Write_def writeDocument_closed)
  from c again noop first mem wr after show ?thesis
    by blast
qed

theorem Close_idempotent_Write_after_Close_fails_witness:
  "\<not> closed ex_pending_writer \<and> bw_buf (writer ex_pending_writer) = ''abc''
   \<and> fst (Close ex_pending_writer) = None
   \<and> sink_bytes (snd (Close ex_pending_writer)) = ''abc''
   \<and> bw_buf (writer (snd (Close ex_pending_writer))) = []
   \<and> closed ex_closed_writer
   \<and> (\<exists>f. file' ex_closed_writer = Some f \<and> is_closed f)
   \<and> Close ex_closed_writer = (None, ex_closed_writer)
   \<and> Write ex_env ex_closed_writer ex_doc = (Some ''writer is closed'', ex_closed_writer)
   \<and> WriteWithAllContent ex_env ex_closed_writer ex_doc fmempty fmempty
        = (Some ''writer is closed'', ex_closed_writer)"
proof -
  let ?cw = "\<lparr>cw_w = \<lparr>received = [], MemWriter.fault = None\<rparr>, cw_n = 0\<rparr>"
  have open': "\<not> closed ex_pending_writer" and buf: "bw_buf (writer ex_pending_writer) = ''abc''"
    and nofile: "file' ex_pending_writer = None" and cw: "countWriter ex_pending_writer = Some ?cw"
    and noerr: "bw_err (writer ex_pending_writer) = None"
    and sink: "sink_bytes ex_pending_writer = []"
    by (simp_all add: ex_pending_writer_def ex_mem_writer_def NewPdfWriterFromWriter_def
        WriteString_def sink_bytes_def)
  have healthy: "MemWriter.fault (cw_w ?cw) = None"
    by simp
  have fopen: "\<not> closed ex_file_writer"
    by (simp add: ex_file_writer_def NewPdfWriter_def)
  note pending = Close_idempotent_Write_after_Close_fails
      [where pw = ex_pending_writer and cw = ?cw and env = ex_env and doc = ex_doc
         and pageContents = fmempty and textContents = fmempty and graphicsContents = fmempty]
  note first = Close_idempotent_Write_after_Close_fails
      [where pw = ex_file_writer and cw = ?cw and env = ex_env and doc = ex_doc
         and pageContents = fmempty and textContents = fmempty and graphicsContents = fmempty]
  note second = Close_idempotent_Write_after_Close_fails
      [where pw = ex_closed_writer and cw = ?cw and env = ex_env and doc = ex_doc
         and pageContents = fmempty and textContents = fmempty and graphicsContents = fmempty]
  have c: "closed ex_closed_writer"
    using first by (simp add: ex_closed_writer_def)
  have "\<exists>f. file' ex_closed_writer = Some f"
    by (simp add: ex_closed_writer_def ex_file_writer_def NewPdfWriter_def Close_def Flush_def
        File_Close_def os_Create_def)
  moreover have "\<forall>f. file' ex_closed_writer = Some f \<longrightarrow> is_closed f"
    using first fopen by (simp add: ex_closed_writer_def)
  ultimately have rel: "\<exists>f. file' ex_closed_writer = Some f \<and> is_closed f"
    by blast
  have p1: "fst (Close ex_pending_writer) = None \<and> sink_bytes (snd (Close ex_pending_writer)) = ''abc''"
  proof -
    from pending open' nofile cw noerr healthy
    have "fst (Close ex_pending_writer) = None
      \<and> sink_bytes (snd (Close ex_pending_writer))
          = sink_bytes ex_pending_writer @ bw_buf (writer ex_pending_writer)"
      by blast
    then show ?thesis
      by (simp add: buf sink)
  qed
  have p2: "bw_buf (writer (snd (Close ex_pending_writer))) = []"
    using pending open' p1 by meson
  have s: "Close ex_closed_writer = (None, ex_closed_writer)
     \<and> Write ex_env ex_closed_writer ex_doc = (Some ''writer is closed'', ex_closed_writer)
     \<and> WriteWithAllContent ex_env ex_closed_writer ex_doc fmempty fmempty
        = (Some ''writer is closed'', ex_closed_writer)"
    using second c by blast
  from open' buf p1 p2 c rel s show ?thesis
    by blast
qed



section \<open>Properties of the page functions\<close>

text \<open>The page that a failure leaves: the head of the dictionary and empty resources.\<close>

lemma createPageWithAllContent_resource_failure:
  assumes "textOps \<noteq> [] \<or> gops \<noteq> []"
    and "((textOps \<noteq> [] \<or> hasTextBlockOps gops)
           \<and> CreateFontCollectionWithGraphics env textOps gops = Inl e)
         \<or> GenerateContentStreamWithGraphics env
              (if textOps \<noteq> [] \<or> hasTextBlockOps gops
               then (case CreateFontCollectionWithGraphics env textOps gops of
                       Inr fc \<Rightarrow> buildSubsets env (Embedded fc) | Inl e' \<Rightarrow> [])
               else []) textOps gops = Inl e"
  shows "createPageWithAllContent_body imageStep env pw page objNum parentRef textOps gops =
     ((NewIndirectObject objNum 0 (pageDictHead env page parentRef @ '' /Resources << >> >>''),
       None, []), pw)"
  using assms
  by (auto simp: createPageWithAllContent_body_def Let_def split: sum.splits)

lemma createPageWithContent_failure:
  assumes "textOps \<noteq> []"
    and "GenerateContentStream env textOps = Inl e \<or> CreateFontObjects env textOps = Inl e"
  shows "createPageWithContent env pw page objNum parentRef textOps =
     ((NewIndirectObject objNum 0 (pageDictHead env page parentRef @ '' /Resources << >> >>''),
       None, []), pw)"
  using assms
  by (auto simp: createPageWithContent_def Let_def split: sum.splits)

lemma createPageWithAllContent_image_failure:
  assumes "\<forall>pw' r'. snd (fst (imageStep env pw' gops r')) \<noteq> None"
  shows "createPageWithAllContent_body imageStep env pw page objNum parentRef textOps gops =
     createPageWithAllContent_body
       (\<lambda>env pw' g r'. case imageStep env pw' g r' of ((objs, e), st) \<Rightarrow> (([], None), st))
       env pw page objNum parentRef textOps gops"
proof -
  have no: "imageStep env pw' gops r' \<noteq> ((a, None), st)" for pw' r' a st
    using assms [rule_format, of pw' r'] by auto
  show ?thesis
    unfolding createPageWithAllContent_body_def Let_def
    by (auto split: sum.splits prod.splits option.splits simp: no)
qed

lemma createAndAssignImageXObjects_no_error:
  "snd (fst (createAndAssignImageXObjects env pw gops res)) = None"
  by (simp add: createAndAssignImageXObjects_def split: prod.splits)

lemma pageTreeLoop_no_error:
  "0 \<le> i \<Longrightarrow> fst (pageTreeLoop mk doc i st) = None"
proof (induction mk doc i st rule: pageTreeLoop.induct)
  case (1 mk doc i objs pageRefs pw)
  show ?case
  proof (cases "i < PageCount doc")
    case True
    with 1 show ?thesis
      by (subst pageTreeLoop.simps)
        (auto simp: Document_Page_def split: prod.splits sum.splits)
  next
    case False
    then show ?thesis
      by (subst pageTreeLoop.simps) simp
  qed
qed

lemma pageTree_no_error: "\<exists>r. fst (pageTree mk pw doc) = Inr r"
  using pageTreeLoop_no_error [of 0 "mk (nextObjNum pw)" doc "([], [], pw\<lparr>nextObjNum := nextObjNum pw + 1\<rparr>)"]
  by (auto simp: pageTree_def allocateObjNum_def Let_def split: prod.splits option.splits)

text \<open>
  Claim C4. A page with operations whose font collection fails, or whose content stream
  generation fails, is still returned by \<open>createPageWithAllContent\<close>: the page object under
  its own number, its dictionary the head followed by \<open>/Resources << >>\<close> and the closing
  \<open>>>\<close>, hence without \<open>/Contents\<close>, no content object, no further objects, and the
  writer untouched. \<open>createPageWithContent\<close> does the same when its generator or its font
  objects fail. No page function returns an error, and neither page tree function does, so
  the document is not aborted. An image step that fails leaves the page function's result
  what it is for a step that makes no objects: the page comes without the images. The
  image step of the sources never fails.
\<close>

theorem page_degrades_instead_of_failing:
  "((textOps \<noteq> [] \<or> gops \<noteq> [])
      \<and> (((textOps \<noteq> [] \<or> hasTextBlockOps gops)
             \<and> CreateFontCollectionWithGraphics env textOps gops = Inl e)
           \<or> GenerateContentStreamWithGraphics env
                (if textOps \<noteq> [] \<or> hasTextBlockOps gops
                 then (case CreateFontCollectionWithGraphics env textOps gops of
                         Inr fc \<Rightarrow> buildSubsets env (Embedded fc) | Inl e' \<Rightarrow> [])
                 else []) textOps gops = Inl e)
     \<longrightarrow> createPageWithAllContent env pw page objNum parentRef textOps gops =
           ((NewIndirectObject objNum 0 (pageDictHead env page parentRef @ '' /Resources << >> >>''),
             None, []), pw))
   \<and> (textOps \<noteq> []
        \<and> (GenerateContentStream env textOps = Inl e \<or> CreateFontObjects env textOps = Inl e)
     \<longrightarrow> createPageWithContent env pw page objNum parentRef textOps =
           ((NewIndirectObject objNum 0 (pageDictHead env page parentRef @ '' /Resources << >> >>''),
             None, []), pw))
   \<and> ((\<forall>pw' r'. snd (fst (imageStep env pw' gops r')) \<noteq> None)
     \<longrightarrow> createPageWithAllContent_body imageStep env pw page objNum parentRef textOps gops =
           createPageWithAllContent_body
             (\<lambda>env pw' g r'. case imageStep env pw' g r' of ((objs, e), st) \<Rightarrow> (([], None), st))
             env pw page objNum parentRef textOps gops)
   \<and> snd (fst (createAndAssignImageXObjects env pw gops resources)) = None
   \<and> (\<exists>r. fst (createPageTreeWithAllContent env pw doc textContents graphicsContents) = Inr r)
   \<and> (\<exists>r. fst (createPageTreeWithContent env pw doc pageContents) = Inr r)"
proof -
  note a = createPageWithAllContent_resource_failure
      [of textOps gops env e createAndAssignImageXObjects pw page objNum parentRef]
  note b = createPageWithContent_failure [of textOps env e pw page objNum parentRef]
  note c = createPageWithAllContent_image_failure [of imageStep env gops pw page objNum parentRef textOps]
  note d = createAndAssignImageXObjects_no_error [of env pw gops resources]
  have t1: "\<exists>r. fst (createPageTreeWithAllContent env pw doc textContents graphicsContents) = Inr r"
    unfolding createPageTreeWithAllContent_def by (rule pageTree_no_error)
  have t2: "\<exists>r. fst (createPageTreeWithContent env pw doc pageContents) = Inr r"
    unfolding createPageTreeWithContent_def by (rule pageTree_no_error)
  from a b c d t1 t2 show ?thesis
    unfolding createPageWithAllContent_def by meson
qed

theorem page_degrades_instead_of_failing_witness:
  "hasTextBlockOps [ex_text_block_op]
   \<and> CreateFontCollectionWithGraphics ex_env_no_fonts [] [ex_text_block_op] = Inl ''font collection failed''
   \<and> createPageWithAllContent ex_env_no_fonts (ex_mem_writer\<lparr>nextObjNum := 3\<rparr>) ex_doc_page 2 1 []
        [ex_text_block_op]
       = ((\<lparr>Number = 2, Generation = 0,
            Data = ''<< /Type /Page /Parent 1 0 R /MediaBox [0.00 0.00 612.00 792.00] /Resources << >> >>''\<rparr>,
           None, []), ex_mem_writer\<lparr>nextObjNum := 3\<rparr>)
   \<and> createPageWithAllContent ex_env_no_content (ex_mem_writer\<lparr>nextObjNum := 3\<rparr>) ex_doc_page 2 1 []
        [ex_image_op]
       = ((\<lparr>Number = 2, Generation = 0,
            Data = ''<< /Type /Page /Parent 1 0 R /MediaBox [0.00 0.00 612.00 792.00] /Resources << >> >>''\<rparr>,
           None, []), ex_mem_writer\<lparr>nextObjNum := 3\<rparr>)
   \<and> fst (createPageWithAllContent_body ex_failing_image_step ex_env (ex_mem_writer\<lparr>nextObjNum := 3\<rparr>)
          ex_doc_page 2 1 [] [ex_image_op])
       = (\<lparr>Number = 2, Generation = 0,
            Data = ''<< /Type /Page /Parent 1 0 R /MediaBox [0.00 0.00 612.00 792.00] /Resources << >> /Contents 4 0 R >>''\<rparr>,
          Some \<lparr>Number = 4, Generation = 0, Data = ''<< /Length 3 >>\<newline>stream\<newline>q Q\<newline>endstream''\<rparr>,
          [])"
proof -
  let ?pw = "ex_mem_writer\<lparr>nextObjNum := 3\<rparr>"
  have tb: "hasTextBlockOps [ex_text_block_op]"
    by (simp add: ex_text_block_op_def)
  have ff: "CreateFontCollectionWithGraphics ex_env_no_fonts [] [ex_text_block_op] = Inl ''font collection failed''"
    by (simp add: ex_env_no_fonts_def)
  have cf: "GenerateContentStreamWithGraphics ex_env_no_content fnts [] [ex_image_op] = Inl ''watermark text is empty''" for fnts
    by (simp add: ex_env_no_content_def)
  have nt: "\<not> hasTextBlockOps [ex_image_op]"
    by (simp add: ex_image_op_def)
  have head1: "pageDictHead ex_env_no_fonts ex_doc_page 1 =
      ''<< /Type /Page /Parent 1 0 R /MediaBox [0.00 0.00 612.00 792.00]''"
    by code_simp
  have head2: "pageDictHead ex_env_no_content ex_doc_page 1 =
      ''<< /Type /Page /Parent 1 0 R /MediaBox [0.00 0.00 612.00 792.00]''"
    by code_simp
  have fails: "\<forall>pw' r'. snd (fst (ex_failing_image_step ex_env pw' [ex_image_op] r')) \<noteq> None"
    by (simp add: ex_failing_image_step_def)
  have dropped: "fst (createPageWithAllContent_body
        (\<lambda>env pw' g r'. case ex_failing_image_step env pw' g r' of ((objs, e), st) \<Rightarrow> (([], None), st))
        ex_env ?pw ex_doc_page 2 1 [] [ex_image_op])
       = (\<lparr>Number = 2, Generation = 0,
            Data = ''<< /Type /Page /Parent 1 0 R /MediaBox [0.00 0.00 612.00 792.00] /Resources << >> /Contents 4 0 R >>''\<rparr>,
          Some \<lparr>Number = 4, Generation = 0, Data = ''<< /Length 3 >>\<newline>stream\<newline>q Q\<newline>endstream''\<rparr>,
          [])"
    by code_simp
  note t1 = page_degrades_instead_of_failing
      [where env = ex_env_no_fonts and textOps = "[]" and gops = "[ex_text_block_op]"
         and e = "''font collection failed''" and pw = ?pw and page = ex_doc_page
         and objNum = 2 and parentRef = 1]
  note t2 = page_degrades_instead_of_failing
      [where env = ex_env_no_content and textOps = "[]" and gops = "[ex_image_op]"
         and e = "''watermark text is empty''" and pw = ?pw and page = ex_doc_page
         and objNum = 2 and parentRef = 1]
  note t3 = page_degrades_instead_of_failing
      [where env = ex_env and textOps = "[]" and gops = "[ex_image_op]"
         and imageStep = ex_failing_image_step and pw = ?pw and page = ex_doc_page
         and objNum = 2 and parentRef = 1]
  have r1: "createPageWithAllContent ex_env_no_fonts ?pw ex_doc_page 2 1 [] [ex_text_block_op]
       = ((NewIndirectObject 2 0 (pageDictHead ex_env_no_fonts ex_doc_page 1 @ '' /Resources << >> >>''),
           None, []), ?pw)"
    using t1 tb ff by simp
  have r2: "createPageWithAllContent ex_env_no_content ?pw ex_doc_page 2 1 [] [ex_image_op]
       = ((NewIndirectObject 2 0 (pageDictHead ex_env_no_content ex_doc_page 1 @ '' /Resources << >> >>''),
           None, []), ?pw)"
    using t2 cf nt by simp
  have r3: "createPageWithAllContent_body ex_failing_image_step ex_env ?pw ex_doc_page 2 1 [] [ex_image_op]
      = createPageWithAllContent_body
        (\<lambda>env pw' g r'. case ex_failing_image_step env pw' g r' of ((objs, e), st) \<Rightarrow> (([], None), st))
        ex_env ?pw ex_doc_page 2 1 [] [ex_image_op]"
    using t3 fails by meson
  show ?thesis
    using tb ff r1 r2 r3 dropped by (simp add: head1 head2 NewIndirectObject_def)
qed

section \<open>The Info object\<close>

lemma titled_run_mem:
  "Write ex_env ex_mem_writer ex_doc_titled =
     (None,
      \<lparr>file' = None, writer = \<lparr>bw_buf = [], bw_err = None\<rparr>,
       countWriter = Some \<lparr>cw_w = \<lparr>received = ex_titled_output, MemWriter.fault = None\<rparr>, cw_n = 376\<rparr>,
       objects =
         [\<lparr>Number = 3, Generation = 0, Data = ''<< /Type /Catalog /Pages 1 0 R >>''\<rparr>,
          \<lparr>Number = 1, Generation = 0, Data = ''<< /Type /Pages /Kids [2 0 R] /Count 1 >>''\<rparr>,
          \<lparr>Number = 2, Generation = 0,
            Data = ''<< /Type /Page /Parent 1 0 R /MediaBox [0.00 0.00 612.00 792.00] /Resources << >> >>''\<rparr>,
          createInfo 4 ex_doc_titled],
       offsets = fmap_of_list [(3, 15), (1, 64), (2, 121), (4, 221)],
       nextObjNum = 5, closed = False\<rparr>)"
  by code_simp

lemma titled_output_places:
  "(bytes_Index ex_titled_output ''4 0 obj'', bytes_Index ex_titled_output ''xref'',
    bytes_Index ex_titled_output ''/Info 4 0 R'', bytes_Index ex_titled_output ''/Size 4'',
    bytes_Index ex_titled_output ''/Size 5'', bytes_Index ex_titled_output ''0 4'')
   = (- 1, 221, 341, 321, - 1, 226)"
  by code_simp

text \<open>
  Claim C1, at the one-page document titled \<open>T\<close>. \<open>Write\<close> succeeds. The Info object is
  allocated as object 4 and appended to the object list, and the trailer refers to it
  (\<open>/Info 4 0 R\<close>), but its bytes never reach the output: no \<open>4 0 obj\<close> occurs in the
  file. The offset recorded for it, 221, is where the \<open>xref\<close> keyword stands, and it is
  recorded after the cross-reference table has been written.
\<close>

theorem Write_titled_never_serializes_Info:
  "fst (Write ex_env ex_mem_writer ex_doc_titled) = None
   \<and> sink_bytes (snd (Write ex_env ex_mem_writer ex_doc_titled)) = ex_titled_output
   \<and> bw_buf (writer (snd (Write ex_env ex_mem_writer ex_doc_titled))) = []
   \<and> objects (snd (Write ex_env ex_mem_writer ex_doc_titled)) ! 3 = createInfo 4 ex_doc_titled
   \<and> bytes_Index ex_titled_output ''/Info 4 0 R'' = 341
   \<and> bytes_Index ex_titled_output ''4 0 obj'' = - 1
   \<and> fmlookup (offsets (snd (Write ex_env ex_mem_writer ex_doc_titled))) 4 = Some 221
   \<and> bytes_Index ex_titled_output ''xref'' = 221"
  using titled_output_places by (simp add: titled_run_mem sink_bytes_def)

text \<open>
  Claim C2, at the same document. The call allocates the four object numbers 1 to 4 (the
  allocator ends at 5), so the claim asks for \<open>/Size 5\<close>; the trailer says \<open>/Size 4\<close> and
  the cross-reference section \<open>0 4\<close>, because the size is read before the Info object
  takes its number.
\<close>

theorem Write_titled_Size_misses_Info:
  "fst (Write ex_env ex_mem_writer ex_doc_titled) = None
   \<and> nextObjNum (snd (Write ex_env ex_mem_writer ex_doc_titled)) = 5
   \<and> map Number (objects (snd (Write ex_env ex_mem_writer ex_doc_titled))) = [3, 1, 2, 4]
   \<and> sink_bytes (snd (Write ex_env ex_mem_writer ex_doc_titled)) = ex_titled_output
   \<and> bytes_Index ex_titled_output ''/Size 4'' = 321
   \<and> bytes_Index ex_titled_output ''/Size 5'' = - 1
   \<and> bytes_Index ex_titled_output ''0 4'' = 226"
  using titled_output_places
  by (simp add: titled_run_mem sink_bytes_def createInfo_def NewIndirectObject_def Let_def)


section \<open>The file sink and the memory sink\<close>

lemma as_mem_fields [simp]:
  "writer (as_mem pw) = writer pw" "objects (as_mem pw) = objects pw"
  "offsets (as_mem pw) = offsets pw" "nextObjNum (as_mem pw) = nextObjNum pw"
  "closed (as_mem pw) = closed pw" "file' (as_mem pw) = None"
  by (simp_all add: as_mem_def split: option.splits)

lemma as_mem_updates [simp]:
  "as_mem (pw\<lparr>writer := w\<rparr>) = (as_mem pw)\<lparr>writer := w\<rparr>"
  "as_mem (pw\<lparr>objects := os\<rparr>) = (as_mem pw)\<lparr>objects := os\<rparr>"
  "as_mem (pw\<lparr>offsets := fs\<rparr>) = (as_mem pw)\<lparr>offsets := fs\<rparr>"
  "as_mem (pw\<lparr>nextObjNum := k\<rparr>) = (as_mem pw)\<lparr>nextObjNum := k\<rparr>"
  "as_mem (pw\<lparr>closed := c\<rparr>) = (as_mem pw)\<lparr>closed := c\<rparr>"
  by (simp_all add: as_mem_def split: option.splits)

lemma well_positioned_updates [simp]:
  "well_positioned (pw\<lparr>writer := w\<rparr>) = well_positioned pw"
  "well_positioned (pw\<lparr>objects := os\<rparr>) = well_positioned pw"
  "well_positioned (pw\<lparr>offsets := fs\<rparr>) = well_positioned pw"
  "well_positioned (pw\<lparr>nextObjNum := k\<rparr>) = well_positioned pw"
  "well_positioned (pw\<lparr>closed := c\<rparr>) = well_positioned pw"
  by (simp_all add: well_positioned_def)












































end
